theory Spec2Isabelle
  imports Complex_Main "HOL-Library.Log_Nat"
begin

section \<open>Numbers: IEEE 754 double precision, as far as \<open>isLightColor\<close> needs it\<close>

text \<open>
  A JavaScript Number is a binary64 value. A finite double is represented here by the
  rational it denotes, and every arithmetic operation is the exact operation followed by
  rounding to the nearest double, ties to even (53 significant bits). The exponent range
  is not bounded: every intermediate value of \<open>isLightColor\<close> is either zero or of
  magnitude between \<open>2\<^sup>-\<^sup>6\<^sup>0\<close> and \<open>2\<^sup>9\<close>, far from overflow and from the subnormal range.
  \<open>NaN\<close> is \<open>None\<close> where it can arise (the result of \<open>parseInt\<close>).
\<close>

definition binexp :: "rat \<Rightarrow> int" where
  \<comment> \<open>the binary exponent \<open>\<lfloor>log\<^sub>2 \<bar>x\<bar>\<rfloor>\<close> of a non-zero rational\<close>
  "binexp x = (let (p, q) = quotient_of \<bar>x\<bar>; k = bitlen p - bitlen q
               in if 2 powi k \<le> \<bar>x\<bar> then k else k - 1)"

definition round_even :: "rat \<Rightarrow> int" where
  \<comment> \<open>the nearest integer, a tie going to the even neighbour\<close>
  "round_even m = (let f = \<lfloor>m\<rfloor>; d = m - of_int f
                   in if d < 1 / 2 then f
                      else if 1 / 2 < d then f + 1
                      else if even f then f else f + 1)"

definition fl :: "rat \<Rightarrow> rat" where
  \<comment> \<open>round to nearest double: scale to a 53-bit integer significand, round, scale back\<close>
  "fl x = (if x = 0 then 0
           else let e = binexp x - 52
                in of_int (round_even (x / 2 powi e)) * 2 powi e)"

section \<open>Strings: the built-ins \<open>isLightColor\<close> calls\<close>

text \<open>
  Strings are lists of 8-bit characters. \<open>String.prototype.replace\<close> with a string
  pattern replaces the first occurrence only; \<open>substring\<close> clamps both indices to the
  length and swaps them when they are out of order.
\<close>

definition replace_hash :: "string \<Rightarrow> string" where
  \<comment> \<open>\<^verbatim>\<open>hexColor.replace('#', '')\<close>\<close>
  "replace_hash s = remove1 (CHR ''#'') s"

definition substring :: "nat \<Rightarrow> nat \<Rightarrow> string \<Rightarrow> string" where
  "substring a b s = take (max a b - min a b) (drop (min a b) s)"

definition is_js_space :: "char \<Rightarrow> bool" where
  \<comment> \<open>the white space and line terminators \<open>parseInt\<close> skips, among the 8-bit characters:
      TAB, LF, VT, FF, CR, SP, NBSP\<close>
  "is_js_space c = (of_char c \<in> {9, 10, 11, 12, 13, 32, 160 :: nat})"

definition hex_digit :: "char \<Rightarrow> nat option" where
  "hex_digit c =
     (let n = (of_char c :: nat)
      in if 48 \<le> n \<and> n \<le> 57 then Some (n - 48)
         else if 97 \<le> n \<and> n \<le> 102 then Some (n - 87)
         else if 65 \<le> n \<and> n \<le> 70 then Some (n - 55)
         else None)"

definition is_hex :: "char \<Rightarrow> bool" where
  "is_hex c = (hex_digit c \<noteq> None)"

definition hex_value :: "string \<Rightarrow> nat" where
  \<comment> \<open>the number a string of hexadecimal digits denotes\<close>
  "hex_value s = foldl (\<lambda>acc c. 16 * acc + (case hex_digit c of Some d \<Rightarrow> d | None \<Rightarrow> 0)) 0 s"

definition parseInt16 :: "string \<Rightarrow> int option" where
  \<comment> \<open>\<^verbatim>\<open>parseInt(s, 16)\<close>: skip leading white space, read a sign, drop a \<^verbatim>\<open>0x\<close>
      prefix, read the longest prefix of hexadecimal digits; \<open>NaN\<close> when that is empty\<close>
  "parseInt16 s =
     (let s1 = dropWhile is_js_space s;
          sign = (if take 1 s1 = ''-'' then - 1 else 1 :: int);
          s2 = (if take 1 s1 = ''+'' \<or> take 1 s1 = ''-'' then drop 1 s1 else s1);
          s3 = (if take 2 s2 = ''0x'' \<or> take 2 s2 = ''0X'' then drop 2 s2 else s2);
          z = takeWhile is_hex s3
      in if z = [] then None else Some (sign * int (hex_value z)))"

section \<open>Contrast derivation\<close>

definition luminance :: "int \<Rightarrow> int \<Rightarrow> int \<Rightarrow> rat" where
  \<comment> \<open>\<^verbatim>\<open>(0.299 * r + 0.587 * g + 0.114 * b) / 255\<close>, every literal and every operation
      rounded to double\<close>
  "luminance r g b =
     fl (fl (fl (fl (fl (299 / 1000) * of_int r) + fl (fl (587 / 1000) * of_int g))
             + fl (fl (114 / 1000) * of_int b)) / 255)"

definition isLightColor :: "string \<Rightarrow> bool" where
  "isLightColor hexColor =
     (let hex = replace_hash hexColor;
          r = parseInt16 (substring 0 2 hex);
          g = parseInt16 (substring 2 4 hex);
          b = parseInt16 (substring 4 6 hex)
      in case (r, g, b) of
           (Some r', Some g', Some b') \<Rightarrow> 1 / 2 < luminance r' g' b'
         | _ \<Rightarrow> False)"

section \<open>JSON values, \<open>JSON.stringify\<close> and \<open>JSON.parse\<close>\<close>

text \<open>
  The status-colour maps reach the local cache as JSON text and come back through
  \<open>JSON.parse\<close>, whose result nothing checks; the remote payload is JSON as well. A
  value is therefore any JSON value. A number keeps the lexeme it was written with; its
  value is the double nearest to the decimal the lexeme denotes, which \<open>stringify\<close>
  prints the way \<open>Number.prototype.toString\<close> does.
  An object is the list of its own properties in enumeration order: the keys that are
  array indices first, ascending, then the other keys in order of creation.
\<close>

datatype json =
    JNull
  | JBool bool
  | JNum string
  | JStr string
  | JArr "json list"
  | JObj "(string \<times> json) list"

definition is_digit :: "char \<Rightarrow> bool" where
  "is_digit c = (48 \<le> (of_char c :: nat) \<and> (of_char c :: nat) \<le> 57)"

definition dec_value :: "string \<Rightarrow> int" where
  "dec_value s = foldl (\<lambda>acc c. 10 * acc + (of_char c - 48)) 0 s"

definition is_array_index :: "string \<Rightarrow> bool" where
  \<comment> \<open>a canonical numeric string below \<open>2\<^sup>3\<^sup>2 - 1\<close>\<close>
  "is_array_index k =
     (k \<noteq> [] \<and> list_all is_digit k \<and> (k = ''0'' \<or> hd k \<noteq> CHR ''0'')
      \<and> dec_value k < 4294967295)"

definition obj_put :: "string \<Rightarrow> 'v \<Rightarrow> (string \<times> 'v) list \<Rightarrow> (string \<times> 'v) list" where
  \<comment> \<open>define own property \<open>k\<close>: an existing property keeps its place, a new array index
      goes among the indices, any other new key goes last\<close>
  "obj_put k v kvs =
     (if k \<in> set (map fst kvs)
      then map (\<lambda>(k', v'). if k' = k then (k', v) else (k', v')) kvs
      else if is_array_index k
      then takeWhile (\<lambda>(k', _). is_array_index k' \<and> dec_value k' < dec_value k) kvs
           @ [(k, v)]
           @ dropWhile (\<lambda>(k', _). is_array_index k' \<and> dec_value k' < dec_value k) kvs
      else kvs @ [(k, v)])"

fun show_nat :: "nat \<Rightarrow> string" where
  "show_nat n =
     (if n < 10 then [char_of (48 + n)] else show_nat (n div 10) @ [char_of (48 + n mod 10)])"

definition own_entries :: "json \<Rightarrow> (string \<times> json) list" where
  \<comment> \<open>the own enumerable properties an object spread copies\<close>
  "own_entries v =
     (case v of
        JObj kvs \<Rightarrow> kvs
      | JArr xs \<Rightarrow> zip (map show_nat [0..<length xs]) xs
      | JStr s \<Rightarrow> zip (map show_nat [0..<length s]) (map (\<lambda>c. JStr [c]) s)
      | _ \<Rightarrow> [])"

definition spread_with :: "json \<Rightarrow> string \<Rightarrow> json \<Rightarrow> json" where
  \<comment> \<open>\<^verbatim>\<open>{ ...v, [k]: x }\<close>: a fresh object with the own properties of \<open>v\<close>, in their
      order, then property \<open>k\<close> defined on it\<close>
  "spread_with v k x = JObj (obj_put k x (own_entries v))"

definition own_keys :: "json \<Rightarrow> string list" where
  "own_keys v = map fst (own_entries v)"

definition get_prop :: "json \<Rightarrow> string \<Rightarrow> json option" where
  \<comment> \<open>\<^verbatim>\<open>v[k]\<close> for an own property; \<open>None\<close> is \<open>undefined\<close>\<close>
  "get_prop v k = map_of (own_entries v) k"

subsection \<open>Truthiness\<close>

definition lexeme_value :: "string \<Rightarrow> rat" where
  \<comment> \<open>the decimal value of a JSON number lexeme, sign dropped\<close>
  "lexeme_value l =
     (let l1 = (if take 1 l = ''-'' then drop 1 l else l);
          ip = takeWhile is_digit l1;
          r1 = dropWhile is_digit l1;
          fp = (if take 1 r1 = ''.'' then takeWhile is_digit (drop 1 r1) else []);
          r2 = (if take 1 r1 = ''.'' then dropWhile is_digit (drop 1 r1) else r1);
          ex = (if take 1 r2 = ''e'' \<or> take 1 r2 = ''E'' then drop 1 r2 else []);
          en = (if take 1 ex = ''-'' then - dec_value (drop 1 ex)
                else if take 1 ex = ''+'' then dec_value (drop 1 ex)
                else dec_value ex)
      in of_int (dec_value (ip @ fp)) * 10 powi (en - int (length fp)))"

definition truthy :: "json \<Rightarrow> bool" where
  \<comment> \<open>\<open>null\<close>, \<open>false\<close>, the empty string and a number that is zero as a double are falsy\<close>
  "truthy v =
     (case v of
        JNull \<Rightarrow> False
      | JBool b \<Rightarrow> b
      | JNum l \<Rightarrow> 1 / 2 ^ 1075 < lexeme_value l
      | JStr s \<Rightarrow> s \<noteq> []
      | _ \<Rightarrow> True)"

subsection \<open>\<open>JSON.stringify\<close>\<close>

definition hex_char :: "nat \<Rightarrow> char" where
  "hex_char d = (if d < 10 then char_of (48 + d) else char_of (87 + d))"

definition escape_char :: "char \<Rightarrow> string" where
  "escape_char c =
     (let n = (of_char c :: nat)
      in if n = 8 then [CHR 0x5C, CHR ''b'']
         else if n = 9 then [CHR 0x5C, CHR ''t'']
         else if n = 10 then [CHR 0x5C, CHR ''n'']
         else if n = 12 then [CHR 0x5C, CHR ''f'']
         else if n = 13 then [CHR 0x5C, CHR ''r'']
         else if n = 34 then [CHR 0x5C, CHR 0x22]
         else if n = 92 then [CHR 0x5C, CHR 0x5C]
         else if n < 32 then [CHR 0x5C, CHR ''u'', CHR ''0'', CHR ''0'',
                              hex_char (n div 16), hex_char (n mod 16)]
         else [c])"

definition quote :: "string \<Rightarrow> string" where
  "quote s = CHR 0x22 # concat (map escape_char s) @ [CHR 0x22]"

text \<open>
  A number is printed from the double it denotes: the fewest decimal digits that read
  back as that double (the nearest such decimal when there are two), laid out as a
  plain decimal when the decimal exponent \<open>n\<close> has \<open>-6 < n \<le> 21\<close> and in exponent
  notation otherwise. \<open>JSON.stringify\<close> prints a number that is not finite as
  \<^verbatim>\<open>null\<close>, and negative zero as \<^verbatim>\<open>0\<close>.
\<close>

definition fl64 :: "rat \<Rightarrow> rat option" where
  \<comment> \<open>the double nearest to a non-negative rational, ties to even, with gradual
      underflow; \<open>None\<close> is \<open>Infinity\<close>, the result when the rounded value reaches
      \<open>2\<^sup>1\<^sup>0\<^sup>2\<^sup>4\<close>\<close>
  "fl64 x = (if x = 0 then Some 0
             else let e = max (binexp x - 52) (- 1074);
                      v = of_int (round_even (x / 2 powi e)) * 2 powi e
                  in if v \<noteq> 0 \<and> 1024 \<le> binexp v then None else Some v)"

function show_int :: "int \<Rightarrow> string" where
  \<comment> \<open>the decimal digits of a non-negative integer\<close>
  "show_int n =
     (if n < 10 then [char_of (48 + n)] else show_int (n div 10) @ [char_of (48 + n mod 10)])"
  by pat_completeness auto
termination
  by (relation "measure nat") auto

definition decexp :: "rat \<Rightarrow> int" where
  \<comment> \<open>the \<open>n\<close> with \<open>10\<^sup>n\<^sup>-\<^sup>1 \<le> x < 10\<^sup>n\<close>, for a positive rational\<close>
  "decexp x = (let (p, q) = quotient_of x;
                   k = int (length (show_int p)) - int (length (show_int q))
               in if 10 powi k \<le> x then k + 1 else k)"

definition digit_candidates :: "rat \<Rightarrow> int \<Rightarrow> nat \<Rightarrow> int list" where
  \<comment> \<open>the \<open>k\<close>-digit \<open>s\<close> with \<open>s \<times> 10\<^sup>n\<^sup>-\<^sup>k\<close> reading back as \<open>y\<close>: the one nearest to
      \<open>y\<close>, the even one on a tie, or none\<close>
  "digit_candidates y n k =
     (let u = 10 powi (n - int k);
          lo = \<lfloor>y / u\<rfloor>;
          ok = filter (\<lambda>s. 10 ^ (k - 1) \<le> s \<and> s < 10 ^ k \<and> fl64 (of_int s * u) = Some y)
                 [lo, lo + 1]
      in case ok of
           [a, b] \<Rightarrow> if y - of_int a * u < of_int b * u - y then [a]
                     else if of_int b * u - y < y - of_int a * u then [b]
                     else if even a then [a] else [b]
         | _ \<Rightarrow> ok)"

definition shortest_digits :: "rat \<Rightarrow> int \<times> nat \<times> int" where
  \<comment> \<open>\<open>(s, k, n)\<close> with \<open>k\<close> least such that the \<open>k\<close>-digit \<open>s\<close> times \<open>10\<^sup>n\<^sup>-\<^sup>k\<close> reads back
      as the positive double \<open>y\<close>; seventeen digits always do\<close>
  "shortest_digits y =
     (let n = decexp y
      in if fl64 (10 powi n) = Some y then (1, 1, n + 1)
         else case concat (map (\<lambda>k. map (\<lambda>s. (s, k, n)) (digit_candidates y n k)) [1..<18]) of
                [] \<Rightarrow> (0, 1, n)
              | c # _ \<Rightarrow> c)"

definition show_double :: "rat \<Rightarrow> string" where
  \<comment> \<open>\<open>Number.prototype.toString\<close> of a positive double\<close>
  "show_double y =
     (let (s, k, n) = shortest_digits y; ds = show_int s
      in if int k \<le> n \<and> n \<le> 21 then ds @ replicate (nat (n - int k)) (CHR ''0'')
         else if 0 < n \<and> n \<le> 21 then take (nat n) ds @ ''.'' @ drop (nat n) ds
         else if - 6 < n \<and> n \<le> 0 then ''0.'' @ replicate (nat (- n)) (CHR ''0'') @ ds
         else let e = n - 1;
                  es = (if e < 0 then ''-'' else ''+'') @ show_int \<bar>e\<bar>
              in if k = 1 then ds @ ''e'' @ es
                 else take 1 ds @ ''.'' @ drop 1 ds @ ''e'' @ es)"

definition number_text :: "string \<Rightarrow> string" where
  \<comment> \<open>what \<open>JSON.stringify\<close> prints for the number a lexeme denotes\<close>
  "number_text l =
     (case fl64 (lexeme_value l) of
        None \<Rightarrow> ''null''
      | Some y \<Rightarrow> if y = 0 then ''0''
                  else (if take 1 l = ''-'' then ''-'' else []) @ show_double y)"

fun stringify :: "json \<Rightarrow> string"
  and stringify_elems :: "json list \<Rightarrow> string"
  and stringify_members :: "(string \<times> json) list \<Rightarrow> string" where
  "stringify JNull = ''null''"
| "stringify (JBool b) = (if b then ''true'' else ''false'')"
| "stringify (JNum l) = number_text l"
| "stringify (JStr s) = quote s"
| "stringify (JArr xs) = ''['' @ stringify_elems xs @ '']''"
| "stringify (JObj kvs) = ''{'' @ stringify_members kvs @ ''}''"
| "stringify_elems [] = []"
| "stringify_elems [x] = stringify x"
| "stringify_elems (x # y # ys) = stringify x @ '','' @ stringify_elems (y # ys)"
| "stringify_members [] = []"
| "stringify_members [(k, v)] = quote k @ '':'' @ stringify v"
| "stringify_members ((k, v) # p # ps) =
     quote k @ '':'' @ stringify v @ '','' @ stringify_members (p # ps)"

subsection \<open>\<open>JSON.parse\<close>\<close>

text \<open>
  The text is cut into tokens, then parsed by recursive descent. \<open>None\<close> is the
  \<open>SyntaxError\<close> the runtime throws. An escape \<^verbatim>\<open>\uXXXX\<close> above \<^verbatim>\<open>\u00FF\<close> denotes a
  character outside the 8-bit alphabet of this development and is rejected. The tests on
  lengths in \<open>pelems\<close> and \<open>pmembers\<close> make termination evident and never fail:
  \<open>pvalue\<close> consumes a token.
\<close>

datatype token =
    TLBrace | TRBrace | TLBrack | TRBrack | TColon | TComma
  | TStr string | TNum string | TTrue | TFalse | TNull

definition unescape :: "char \<Rightarrow> char option" where
  "unescape e =
     (if e = CHR 0x22 then Some (CHR 0x22)
      else if e = CHR 0x5C then Some (CHR 0x5C)
      else if e = CHR ''/'' then Some (CHR ''/'')
      else if e = CHR ''b'' then Some (CHR 0x08)
      else if e = CHR ''f'' then Some (CHR 0x0C)
      else if e = CHR ''n'' then Some (CHR 0x0A)
      else if e = CHR ''r'' then Some (CHR 0x0D)
      else if e = CHR ''t'' then Some (CHR 0x09)
      else None)"

fun lex_string :: "string \<Rightarrow> (string \<times> nat) option" where
  \<comment> \<open>the string that follows an opening quote, and the number of characters it takes
      up to and with the closing quote\<close>
  "lex_string [] = None"
| "lex_string (c # cs) =
     (if c = CHR 0x22 then Some ([], 1)
      else if c = CHR 0x5C then
        (case cs of
           [] \<Rightarrow> None
         | e # cs' \<Rightarrow>
             if e = CHR ''u'' then
               (case cs' of
                  h1 # h2 # h3 # h4 # cs'' \<Rightarrow>
                    if list_all is_hex [h1, h2, h3, h4] \<and> hex_value [h1, h2, h3, h4] < 256
                    then map_option
                           (\<lambda>(s, n). (char_of (hex_value [h1, h2, h3, h4]) # s, n + 6))
                           (lex_string cs'')
                    else None
                | _ \<Rightarrow> None)
             else
               (case unescape e of
                  None \<Rightarrow> None
                | Some ch \<Rightarrow> map_option (\<lambda>(s, n). (ch # s, n + 2)) (lex_string cs')))
      else if (of_char c :: nat) < 32 then None
      else map_option (\<lambda>(s, n). (c # s, n + 1)) (lex_string cs))"

definition lex_number :: "string \<Rightarrow> string option" where
  \<comment> \<open>the longest prefix of the form
      \<^verbatim>\<open>-? (0 | [1-9][0-9]*) (. [0-9]+)? ([eE] [+-]? [0-9]+)?\<close>\<close>
  "lex_number s =
     (let sg = (if take 1 s = ''-'' then ''-'' else []);
          s1 = drop (length sg) s;
          ip = (if take 1 s1 = ''0'' then ''0'' else takeWhile is_digit s1);
          s2 = drop (length ip) s1;
          fd = (if take 1 s2 = ''.'' then takeWhile is_digit (drop 1 s2) else []);
          fp = (if take 1 s2 = ''.'' then CHR ''.'' # fd else []);
          s3 = drop (length fp) s2;
          hase = (take 1 s3 = ''e'' \<or> take 1 s3 = ''E'');
          es = (if hase \<and> (take 1 (drop 1 s3) = ''+'' \<or> take 1 (drop 1 s3) = ''-'')
                then take 1 (drop 1 s3) else []);
          ed = (if hase then takeWhile is_digit (drop (1 + length es) s3) else []);
          ep = (if hase then take 1 s3 @ es @ ed else [])
      in if ip = [] \<or> (take 1 s2 = ''.'' \<and> fd = []) \<or> (hase \<and> ed = []) then None
         else Some (sg @ ip @ fp @ ep))"

definition is_json_space :: "char \<Rightarrow> bool" where
  "is_json_space c = (of_char c \<in> {9, 10, 13, 32 :: nat})"

fun tokenize :: "string \<Rightarrow> token list option" where
  "tokenize [] = Some []"
| "tokenize (c # cs) =
     (if is_json_space c then tokenize cs
      else if c = CHR ''{'' then map_option (Cons TLBrace) (tokenize cs)
      else if c = CHR ''}'' then map_option (Cons TRBrace) (tokenize cs)
      else if c = CHR ''['' then map_option (Cons TLBrack) (tokenize cs)
      else if c = CHR '']'' then map_option (Cons TRBrack) (tokenize cs)
      else if c = CHR '':'' then map_option (Cons TColon) (tokenize cs)
      else if c = CHR '','' then map_option (Cons TComma) (tokenize cs)
      else if c = CHR 0x22 then
        (case lex_string cs of
           None \<Rightarrow> None
         | Some (s, n) \<Rightarrow> map_option (Cons (TStr s)) (tokenize (drop n cs)))
      else if take 4 (c # cs) = ''true'' then map_option (Cons TTrue) (tokenize (drop 3 cs))
      else if take 5 (c # cs) = ''false'' then map_option (Cons TFalse) (tokenize (drop 4 cs))
      else if take 4 (c # cs) = ''null'' then map_option (Cons TNull) (tokenize (drop 3 cs))
      else
        (case lex_number (c # cs) of
           None \<Rightarrow> None
         | Some l \<Rightarrow> map_option (Cons (TNum l)) (tokenize (drop (length l - 1) cs))))"

function pvalue :: "token list \<Rightarrow> (json \<times> token list) option"
  and pelems :: "json list \<Rightarrow> token list \<Rightarrow> (json \<times> token list) option"
  and pmembers :: "(string \<times> json) list \<Rightarrow> token list \<Rightarrow> (json \<times> token list) option" where
  "pvalue ts =
     (case ts of
        TNull # r \<Rightarrow> Some (JNull, r)
      | TTrue # r \<Rightarrow> Some (JBool True, r)
      | TFalse # r \<Rightarrow> Some (JBool False, r)
      | TNum l # r \<Rightarrow> Some (JNum l, r)
      | TStr s # r \<Rightarrow> Some (JStr s, r)
      | TLBrack # TRBrack # r \<Rightarrow> Some (JArr [], r)
      | TLBrack # r \<Rightarrow> pelems [] r
      | TLBrace # TRBrace # r \<Rightarrow> Some (JObj [], r)
      | TLBrace # r \<Rightarrow> pmembers [] r
      | _ \<Rightarrow> None)"
| "pelems acc ts =
     (case pvalue ts of
        None \<Rightarrow> None
      | Some (v, r) \<Rightarrow>
          if length r < length ts then
            (case r of
               TComma # r' \<Rightarrow> pelems (acc @ [v]) r'
             | TRBrack # r' \<Rightarrow> Some (JArr (acc @ [v]), r')
             | _ \<Rightarrow> None)
          else None)"
| "pmembers acc ts =
     (case ts of
        TStr k # TColon # ts' \<Rightarrow>
          (case pvalue ts' of
             None \<Rightarrow> None
           | Some (v, r) \<Rightarrow>
               if length r < length ts' then
                 (case r of
                    TComma # r' \<Rightarrow> pmembers (obj_put k v acc) r'
                  | TRBrace # r' \<Rightarrow> Some (JObj (obj_put k v acc), r')
                  | _ \<Rightarrow> None)
               else None)
      | _ \<Rightarrow> None)"
  by pat_completeness auto
termination
  by (relation "measure (\<lambda>x. case x of
          Inl ts \<Rightarrow> 2 * length ts
        | Inr (Inl (acc, ts)) \<Rightarrow> 2 * length ts + 1
        | Inr (Inr (acc, ts)) \<Rightarrow> 2 * length ts + 1)") auto

declare pvalue.simps [simp del] pelems.simps [simp del] pmembers.simps [simp del]

definition JSON_parse :: "string \<Rightarrow> json option" where
  "JSON_parse s =
     (case tokenize s of
        None \<Rightarrow> None
      | Some ts \<Rightarrow> (case pvalue ts of Some (v, []) \<Rightarrow> Some v | _ \<Rightarrow> None))"

section \<open>The theme provider\<close>

subsection \<open>Data\<close>

text \<open>
  \<open>ThemeSettings\<close> is the remote payload: every field is optional. The five colour
  fields are taken at their declared type, a string; the three status maps are JSON
  values, since nothing checks the shape of what the remote store or the local cache
  hands back.
\<close>

record ThemeSettings =
  headerColor_opt :: "string option"
  avatarColor_opt :: "string option"
  textColor_opt :: "string option"
  mainColor_opt :: "string option"
  buttonColor_opt :: "string option"
  caseStatusColors_opt :: "json option"
  taskStatusColors_opt :: "json option"
  caseStatusTextColors_opt :: "json option"

datatype Status = completed | in_progress | delayed | analysis

fun status_key :: "Status \<Rightarrow> string" where
  \<comment> \<open>\<^verbatim>\<open>keyof StatusColorsType\<close>\<close>
  "status_key completed = ''completed''"
| "status_key in_progress = ''in-progress''"
| "status_key delayed = ''delayed''"
| "status_key analysis = ''analysis''"

datatype StatusView = Cases | Tasks

fun view_name :: "StatusView \<Rightarrow> string" where
  "view_name Cases = ''cases''"
| "view_name Tasks = ''tasks''"

definition DEFAULT_STATUS_COLORS :: json where
  "DEFAULT_STATUS_COLORS =
     JObj [(''completed'', JStr ''#F2FCE2''), (''in-progress'', JStr ''#D3E4FD''),
           (''delayed'', JStr ''#FFCCCB''), (''analysis'', JStr ''#FEF7CD'')]"

definition DEFAULT_TEXT_COLORS :: json where
  "DEFAULT_TEXT_COLORS =
     JObj [(''completed'', JStr ''#1e3a1e''), (''in-progress'', JStr ''#1e3a5a''),
           (''delayed'', JStr ''#8B0000''), (''analysis'', JStr ''#3a351e'')]"

text \<open>The component state: the nine preference fields and the \<open>initialized\<close> flag.\<close>

record ThemeState =
  headerColor :: string
  avatarColor :: string
  textColor :: string
  mainColor :: string
  buttonColor :: string
  caseStatusColors :: json
  taskStatusColors :: json
  caseStatusTextColors :: json
  currentStatusView :: string
  initialized :: bool

definition initial_theme :: ThemeState where
  \<comment> \<open>the arguments of the ten \<open>useState\<close> calls\<close>
  "initial_theme =
     \<lparr>headerColor = ''#8B9474'', avatarColor = ''#F5A65B'', textColor = ''text-white'',
      mainColor = ''#F3F4F6'', buttonColor = ''#8B9474'',
      caseStatusColors = DEFAULT_STATUS_COLORS, taskStatusColors = DEFAULT_STATUS_COLORS,
      caseStatusTextColors = DEFAULT_TEXT_COLORS, currentStatusView = ''cases'',
      initialized = False\<rparr>"

text \<open>
  What the component does to the outside is recorded as a trace: a call of
  \<open>loadFromLocalStorage\<close>, a call of \<open>setInitialized(true)\<close>, a \<open>console.error\<close>, a
  call of \<open>saveThemeToDatabase\<close> with its argument, the update request sent to the
  remote store for a user, and a toast.
\<close>

datatype event =
    LocalLoad
  | SetInitialized
  | ConsoleError
  | SaveCall ThemeSettings
  | RemoteUpdate string ThemeSettings
  | Toast

record World =
  theme :: ThemeState
  localStorage :: "string \<rightharpoonup> string"
  trace :: "event list"

definition mount :: "(string \<rightharpoonup> string) \<Rightarrow> World" where
  \<comment> \<open>the provider at its first render, over a given local cache\<close>
  "mount ls = \<lparr>theme = initial_theme, localStorage = ls, trace = []\<rparr>"

text \<open>
  The backend is what the awaited calls resolve to: a promise rejects or resolves;
  \<open>getUser\<close> gives a user id or \<open>null\<close>; the select gives a row (whose
  \<open>theme_settings\<close> may be \<open>null\<close>) or \<open>null\<close>, and an error code or none; the update
  gives an error code or none.
\<close>

datatype 'a reply = Rejects | Resolves 'a

record select_response =
  data :: "ThemeSettings option option"
  error :: "string option"

record Backend =
  getUser :: "string option reply"
  select_theme_settings :: "string \<Rightarrow> select_response reply"
  update_theme_settings :: "string \<Rightarrow> string option reply"

text \<open>A call either returns or throws; the state changes made before a throw stay.\<close>

datatype 'a result = Returned 'a | Threw 'a

fun world_of :: "'a result \<Rightarrow> 'a" where
  "world_of (Returned w) = w"
| "world_of (Threw w) = w"

fun threw :: "'a result \<Rightarrow> bool" where
  "threw (Returned w) = False"
| "threw (Threw w) = True"

subsection \<open>JavaScript idioms\<close>

definition str_or :: "string option \<Rightarrow> string \<Rightarrow> string" where
  \<comment> \<open>\<^verbatim>\<open>x || d\<close> for a string or \<open>null\<close>/\<open>undefined\<close>: the empty string is falsy\<close>
  "str_or x d = (case x of None \<Rightarrow> d | Some v \<Rightarrow> if v = [] then d else v)"

definition json_or :: "json option \<Rightarrow> json \<Rightarrow> json" where
  \<comment> \<open>\<^verbatim>\<open>x || d\<close> for a JSON value or \<open>undefined\<close>\<close>
  "json_or x d = (case x of None \<Rightarrow> d | Some v \<Rightarrow> if truthy v then v else d)"

definition parse_stored :: "string option \<Rightarrow> json \<Rightarrow> json option" where
  \<comment> \<open>\<^verbatim>\<open>stored ? JSON.parse(stored) : d\<close>; \<open>None\<close> when \<open>JSON.parse\<close> throws\<close>
  "parse_stored stored d =
     (case stored of None \<Rightarrow> Some d | Some s \<Rightarrow> if s = [] then Some d else JSON_parse s)"

definition contrast :: "string \<Rightarrow> string" where
  \<comment> \<open>\<^verbatim>\<open>isLightColor(c) ? 'text-gray-800' : 'text-white'\<close>\<close>
  "contrast c = (if isLightColor c then ''text-gray-800'' else ''text-white'')"

definition log :: "event \<Rightarrow> World \<Rightarrow> World" where
  "log e w = w\<lparr>trace := trace w @ [e]\<rparr>"

subsection \<open>Loading\<close>

text \<open>
  \<open>loadThemeSettings\<close> is the body of the effect that runs once, at mount. A state
  setter called before a throw has taken effect, so a load that throws leaves the fields
  it had already set. \<open>localStorage.getItem\<close> is taken not to throw.
\<close>

definition setInitialized :: "World \<Rightarrow> World" where
  \<comment> \<open>\<^verbatim>\<open>setInitialized(true)\<close>\<close>
  "setInitialized w = log SetInitialized (w\<lparr>theme := (theme w)\<lparr>initialized := True\<rparr>\<rparr>)"

definition loadFromLocalStorage :: "World \<Rightarrow> World result" where
  "loadFromLocalStorage w =
     (let ls = localStorage w;
          storedHeaderColor = str_or (ls ''praxis-header-color'') ''#8B9474'';
          w1 = log LocalLoad w\<lparr>theme := (theme w)
                 \<lparr>headerColor := str_or (ls ''praxis-header-color'') ''#8B9474'',
                  avatarColor := str_or (ls ''praxis-avatar-color'') ''#F5A65B'',
                  textColor := contrast storedHeaderColor,
                  mainColor := str_or (ls ''praxis-main-color'') ''#F3F4F6'',
                  buttonColor := str_or (ls ''praxis-button-color'') ''#8B9474''\<rparr>\<rparr>
      in case parse_stored (ls ''praxis-case-status-colors'') DEFAULT_STATUS_COLORS of
           None \<Rightarrow> Threw w1
         | Some cc \<Rightarrow>
             (let w2 = w1\<lparr>theme := (theme w1)\<lparr>caseStatusColors := cc\<rparr>\<rparr>
              in case parse_stored (ls ''praxis-task-status-colors'') DEFAULT_STATUS_COLORS of
                   None \<Rightarrow> Threw w2
                 | Some tc \<Rightarrow>
                     (let w3 = w2\<lparr>theme := (theme w2)\<lparr>taskStatusColors := tc\<rparr>\<rparr>
                      in case parse_stored (ls ''praxis-case-status-text-colors'')
                                DEFAULT_TEXT_COLORS of
                           None \<Rightarrow> Threw w3
                         | Some xc \<Rightarrow>
                             Returned (w3\<lparr>theme := (theme w3)
                               \<lparr>caseStatusTextColors := xc,
                                currentStatusView :=
                                  str_or (ls ''praxis-status-view'') ''cases''\<rparr>\<rparr>))))"

definition adopt :: "ThemeSettings \<Rightarrow> World \<Rightarrow> World" where
  \<comment> \<open>the branch \<^verbatim>\<open>if (profile?.theme_settings)\<close>\<close>
  "adopt settings w =
     w\<lparr>theme := (theme w)
        \<lparr>headerColor := str_or (headerColor_opt settings) ''#8B9474'',
         avatarColor := str_or (avatarColor_opt settings) ''#F5A65B'',
         textColor := str_or (textColor_opt settings) ''text-white'',
         mainColor := str_or (mainColor_opt settings) ''#F3F4F6'',
         buttonColor := str_or (buttonColor_opt settings) ''#8B9474'',
         caseStatusColors := json_or (caseStatusColors_opt settings) DEFAULT_STATUS_COLORS,
         taskStatusColors := json_or (taskStatusColors_opt settings) DEFAULT_STATUS_COLORS,
         caseStatusTextColors :=
           json_or (caseStatusTextColors_opt settings) DEFAULT_TEXT_COLORS\<rparr>\<rparr>"

text \<open>
  The \<open>try\<close> block of \<open>loadThemeSettings\<close> ends in one of three ways: it returns from
  the function (the two early \<open>return\<close>s), it falls through to the statement after the
  \<open>try\<close>, or it throws into the \<open>catch\<close>.
\<close>

datatype 'a completion = Return 'a | FallThrough 'a | Throw 'a

definition try_block :: "Backend \<Rightarrow> World \<Rightarrow> World completion" where
  "try_block be w =
     (case getUser be of
        Rejects \<Rightarrow> Throw w
      | Resolves None \<Rightarrow>
          (case loadFromLocalStorage w of
             Threw w1 \<Rightarrow> Throw w1
           | Returned w1 \<Rightarrow> Return (setInitialized w1))
      | Resolves (Some uid) \<Rightarrow>
          (case select_theme_settings be uid of
             Rejects \<Rightarrow> Throw w
           | Resolves resp \<Rightarrow>
               if error resp \<noteq> None \<and> error resp \<noteq> Some ''PGRST116'' then
                 (case loadFromLocalStorage (log ConsoleError w) of
                    Threw w1 \<Rightarrow> Throw w1
                  | Returned w1 \<Rightarrow> Return (setInitialized w1))
               else
                 (case data resp of
                    Some (Some settings) \<Rightarrow> FallThrough (adopt settings w)
                  | _ \<Rightarrow>
                      (case loadFromLocalStorage w of
                         Threw w1 \<Rightarrow> Throw w1
                       | Returned w1 \<Rightarrow> FallThrough w1))))"

definition loadThemeSettings :: "Backend \<Rightarrow> World \<Rightarrow> World result" where
  "loadThemeSettings be w =
     (case try_block be w of
        Return w1 \<Rightarrow> Returned w1
      | FallThrough w1 \<Rightarrow> Returned (setInitialized w1)
      | Throw w1 \<Rightarrow>
          (case loadFromLocalStorage (log ConsoleError w1) of
             Threw w2 \<Rightarrow> Threw w2
           | Returned w2 \<Rightarrow> Returned (setInitialized w2)))"

subsection \<open>Saving and the setters\<close>

text \<open>
  A setter is a closure of the render it was created in: it reads the state of the world
  it is called on, so a call is taken to be made on the latest render.
  \<open>saveThemeToDatabase\<close> is asynchronous and its promise is dropped; what it does is
  recorded in the trace at the call, with the answers the backend gives to that call.
  \<open>localStorage.setItem\<close> is taken not to throw.
\<close>

definition saveThemeToDatabase :: "Backend \<Rightarrow> ThemeSettings \<Rightarrow> World \<Rightarrow> World" where
  "saveThemeToDatabase be newSettings w =
     (let w0 = log (SaveCall newSettings) w
      in case getUser be of
           Rejects \<Rightarrow> log ConsoleError w0
         | Resolves None \<Rightarrow> w0
         | Resolves (Some uid) \<Rightarrow>
             (let w1 = log (RemoteUpdate uid newSettings) w0
              in case update_theme_settings be uid of
                   Rejects \<Rightarrow> log ConsoleError w1
                 | Resolves None \<Rightarrow> w1
                 | Resolves (Some e) \<Rightarrow> log Toast (log ConsoleError w1)))"

definition current_settings :: "ThemeState \<Rightarrow> ThemeSettings" where
  \<comment> \<open>the object literal every setter starts from: the eight remote fields of the state\<close>
  "current_settings t =
     \<lparr>headerColor_opt = Some (headerColor t), avatarColor_opt = Some (avatarColor t),
      textColor_opt = Some (textColor t), mainColor_opt = Some (mainColor t),
      buttonColor_opt = Some (buttonColor t),
      caseStatusColors_opt = Some (caseStatusColors t),
      taskStatusColors_opt = Some (taskStatusColors t),
      caseStatusTextColors_opt = Some (caseStatusTextColors t)\<rparr>"

definition setItem :: "string \<Rightarrow> string \<Rightarrow> World \<Rightarrow> World" where
  "setItem k v w = w\<lparr>localStorage := (localStorage w)(k \<mapsto> v)\<rparr>"

definition setHeaderColor :: "Backend \<Rightarrow> string \<Rightarrow> World \<Rightarrow> World" where
  "setHeaderColor be color w =
     (let newTextColor = contrast color;
          w1 = setItem ''praxis-header-color'' color
                 (w\<lparr>theme := (theme w)\<lparr>headerColor := color, textColor := newTextColor\<rparr>\<rparr>)
      in if initialized (theme w)
         then saveThemeToDatabase be
                ((current_settings (theme w))
                   \<lparr>headerColor_opt := Some color, textColor_opt := Some newTextColor\<rparr>) w1
         else w1)"

definition setAvatarColor :: "Backend \<Rightarrow> string \<Rightarrow> World \<Rightarrow> World" where
  "setAvatarColor be color w =
     (let w1 = setItem ''praxis-avatar-color'' color
                 (w\<lparr>theme := (theme w)\<lparr>avatarColor := color\<rparr>\<rparr>)
      in if initialized (theme w)
         then saveThemeToDatabase be
                ((current_settings (theme w))\<lparr>avatarColor_opt := Some color\<rparr>) w1
         else w1)"

definition setTextColor :: "Backend \<Rightarrow> string \<Rightarrow> World \<Rightarrow> World" where
  "setTextColor be color w =
     (let w1 = setItem ''praxis-text-color'' color
                 (w\<lparr>theme := (theme w)\<lparr>textColor := color\<rparr>\<rparr>)
      in if initialized (theme w)
         then saveThemeToDatabase be
                ((current_settings (theme w))\<lparr>textColor_opt := Some color\<rparr>) w1
         else w1)"

definition setMainColor :: "Backend \<Rightarrow> string \<Rightarrow> World \<Rightarrow> World" where
  "setMainColor be color w =
     (let w1 = setItem ''praxis-main-color'' color
                 (w\<lparr>theme := (theme w)\<lparr>mainColor := color\<rparr>\<rparr>)
      in if initialized (theme w)
         then saveThemeToDatabase be
                ((current_settings (theme w))\<lparr>mainColor_opt := Some color\<rparr>) w1
         else w1)"

definition setButtonColor :: "Backend \<Rightarrow> string \<Rightarrow> World \<Rightarrow> World" where
  "setButtonColor be color w =
     (let w1 = setItem ''praxis-button-color'' color
                 (w\<lparr>theme := (theme w)\<lparr>buttonColor := color\<rparr>\<rparr>)
      in if initialized (theme w)
         then saveThemeToDatabase be
                ((current_settings (theme w))\<lparr>buttonColor_opt := Some color\<rparr>) w1
         else w1)"

definition setCaseStatusColor :: "Backend \<Rightarrow> Status \<Rightarrow> string \<Rightarrow> World \<Rightarrow> World" where
  "setCaseStatusColor be status color w =
     (let newColors = spread_with (caseStatusColors (theme w)) (status_key status) (JStr color);
          w1 = setItem ''praxis-case-status-colors'' (stringify newColors)
                 (w\<lparr>theme := (theme w)\<lparr>caseStatusColors := newColors\<rparr>\<rparr>)
      in if initialized (theme w)
         then saveThemeToDatabase be
                ((current_settings (theme w))\<lparr>caseStatusColors_opt := Some newColors\<rparr>) w1
         else w1)"

definition setTaskStatusColor :: "Backend \<Rightarrow> Status \<Rightarrow> string \<Rightarrow> World \<Rightarrow> World" where
  "setTaskStatusColor be status color w =
     (let newColors = spread_with (taskStatusColors (theme w)) (status_key status) (JStr color);
          w1 = setItem ''praxis-task-status-colors'' (stringify newColors)
                 (w\<lparr>theme := (theme w)\<lparr>taskStatusColors := newColors\<rparr>\<rparr>)
      in if initialized (theme w)
         then saveThemeToDatabase be
                ((current_settings (theme w))\<lparr>taskStatusColors_opt := Some newColors\<rparr>) w1
         else w1)"

definition setCaseStatusTextColor :: "Backend \<Rightarrow> Status \<Rightarrow> string \<Rightarrow> World \<Rightarrow> World" where
  "setCaseStatusTextColor be status color w =
     (let newColors =
            spread_with (caseStatusTextColors (theme w)) (status_key status) (JStr color);
          w1 = setItem ''praxis-case-status-text-colors'' (stringify newColors)
                 (w\<lparr>theme := (theme w)\<lparr>caseStatusTextColors := newColors\<rparr>\<rparr>)
      in if initialized (theme w)
         then saveThemeToDatabase be
                ((current_settings (theme w))\<lparr>caseStatusTextColors_opt := Some newColors\<rparr>) w1
         else w1)"

definition setCurrentStatusView :: "StatusView \<Rightarrow> World \<Rightarrow> World" where
  "setCurrentStatusView view w =
     setItem ''praxis-status-view'' (view_name view)
       (w\<lparr>theme := (theme w)\<lparr>currentStatusView := view_name view\<rparr>\<rparr>)"

subsection \<open>Sequences of setter calls\<close>

datatype call =
    SetHeaderColor string
  | SetAvatarColor string
  | SetTextColor string
  | SetMainColor string
  | SetButtonColor string
  | SetCaseStatusColor Status string
  | SetTaskStatusColor Status string
  | SetCaseStatusTextColor Status string
  | SetCurrentStatusView StatusView

fun perform :: "Backend \<Rightarrow> call \<Rightarrow> World \<Rightarrow> World" where
  "perform be (SetHeaderColor c) w = setHeaderColor be c w"
| "perform be (SetAvatarColor c) w = setAvatarColor be c w"
| "perform be (SetTextColor c) w = setTextColor be c w"
| "perform be (SetMainColor c) w = setMainColor be c w"
| "perform be (SetButtonColor c) w = setButtonColor be c w"
| "perform be (SetCaseStatusColor k c) w = setCaseStatusColor be k c w"
| "perform be (SetTaskStatusColor k c) w = setTaskStatusColor be k c w"
| "perform be (SetCaseStatusTextColor k c) w = setCaseStatusTextColor be k c w"
| "perform be (SetCurrentStatusView v) w = setCurrentStatusView v w"

fun run :: "(Backend \<times> call) list \<Rightarrow> World \<Rightarrow> World" where
  \<comment> \<open>each call is made on the render that follows the previous one\<close>
  "run [] w = w"
| "run ((be, c) # cs) w = run cs (perform be c w)"

definition save_calls :: "World \<Rightarrow> ThemeSettings list" where
  "save_calls w = concat (map (\<lambda>e. case e of SaveCall p \<Rightarrow> [p] | _ \<Rightarrow> []) (trace w))"

definition remote_updates :: "World \<Rightarrow> (string \<times> ThemeSettings) list" where
  "remote_updates w =
     concat (map (\<lambda>e. case e of RemoteUpdate u p \<Rightarrow> [(u, p)] | _ \<Rightarrow> []) (trace w))"

section \<open>Notions the statements use\<close>

definition signed_out :: Backend where
  \<comment> \<open>a backend without a session\<close>
  "signed_out =
     \<lparr>getUser = Resolves None, select_theme_settings = (\<lambda>_. Rejects),
      update_theme_settings = (\<lambda>_. Rejects)\<rparr>"

definition signed_in :: "ThemeSettings option \<Rightarrow> Backend" where
  \<comment> \<open>a backend with a session whose profile row holds the given \<open>theme_settings\<close>\<close>
  "signed_in p =
     \<lparr>getUser = Resolves (Some ''user-1''),
      select_theme_settings = (\<lambda>_. Resolves \<lparr>data = Some p, error = None\<rparr>),
      update_theme_settings = (\<lambda>_. Resolves None)\<rparr>"


definition valid_hex6 :: "string \<Rightarrow> bool" where
  \<comment> \<open>six hexadecimal digits\<close>
  "valid_hex6 h = (length h = 6 \<and> list_all is_hex h)"

definition channel :: "nat \<Rightarrow> string \<Rightarrow> int" where
  \<comment> \<open>the red (0), green (1) or blue (2) component of six hexadecimal digits\<close>
  "channel i h = int (hex_value (take 2 (drop (2 * i) h)))"

definition exact_luminance :: "int \<Rightarrow> int \<Rightarrow> int \<Rightarrow> rat" where
  \<comment> \<open>the formula of the specification, \<open>(0.299 R + 0.587 G + 0.114 B) / 255\<close>, in exact
      arithmetic\<close>
  "exact_luminance r g b =
     (299 / 1000 * of_int r + 587 / 1000 * of_int g + 114 / 1000 * of_int b) / 255"

definition fixed_keys :: "string set" where
  "fixed_keys = {''completed'', ''in-progress'', ''delayed'', ''analysis''}"

definition has_fixed_keys :: "json \<Rightarrow> bool" where
  \<comment> \<open>exactly the four fixed keys: none absent, none extraneous\<close>
  "has_fixed_keys m = (set (own_keys m) = fixed_keys)"

definition maps_ok :: "ThemeState \<Rightarrow> bool" where
  "maps_ok t =
     (has_fixed_keys (caseStatusColors t) \<and> has_fixed_keys (taskStatusColors t)
      \<and> has_fixed_keys (caseStatusTextColors t))"

definition settings_maps_ok :: "ThemeSettings \<Rightarrow> bool" where
  \<comment> \<open>every status map the load would adopt from a payload has the four keys\<close>
  "settings_maps_ok p =
     (has_fixed_keys (json_or (caseStatusColors_opt p) DEFAULT_STATUS_COLORS)
      \<and> has_fixed_keys (json_or (taskStatusColors_opt p) DEFAULT_STATUS_COLORS)
      \<and> has_fixed_keys (json_or (caseStatusTextColors_opt p) DEFAULT_TEXT_COLORS))"

definition stored_map_ok :: "string option \<Rightarrow> bool" where
  \<comment> \<open>a cached status map is absent, empty, unparsable, or parses to the four keys\<close>
  "stored_map_ok stored =
     (case parse_stored stored DEFAULT_STATUS_COLORS of
        None \<Rightarrow> True
      | Some m \<Rightarrow> has_fixed_keys m)"

definition cache_maps_ok :: "(string \<rightharpoonup> string) \<Rightarrow> bool" where
  "cache_maps_ok ls =
     (stored_map_ok (ls ''praxis-case-status-colors'')
      \<and> stored_map_ok (ls ''praxis-task-status-colors'')
      \<and> stored_map_ok (ls ''praxis-case-status-text-colors''))"

definition cache_parses :: "(string \<rightharpoonup> string) \<Rightarrow> bool" where
  \<comment> \<open>\<open>JSON.parse\<close> throws on none of the three cached status maps\<close>
  "cache_parses ls =
     (parse_stored (ls ''praxis-case-status-colors'') DEFAULT_STATUS_COLORS \<noteq> None
      \<and> parse_stored (ls ''praxis-task-status-colors'') DEFAULT_STATUS_COLORS \<noteq> None
      \<and> parse_stored (ls ''praxis-case-status-text-colors'') DEFAULT_TEXT_COLORS \<noteq> None)"

definition status_object :: "string \<Rightarrow> string \<Rightarrow> string \<Rightarrow> string \<Rightarrow> json" where
  \<comment> \<open>a value of the declared type \<open>StatusColorsType\<close>\<close>
  "status_object a b c d =
     JObj [(''completed'', JStr a), (''in-progress'', JStr b),
           (''delayed'', JStr c), (''analysis'', JStr d)]"

definition is_status_object :: "json \<Rightarrow> bool" where
  "is_status_object m = (\<exists>a b c d. m = status_object a b c d)"

definition scalar_synced :: "string option \<Rightarrow> string \<Rightarrow> string \<Rightarrow> bool" where
  \<comment> \<open>a cached string and the field it mirrors: absent with the field at its default, or
      equal to the field and not empty\<close>
  "scalar_synced stored d v =
     (case stored of None \<Rightarrow> v = d | Some s \<Rightarrow> s \<noteq> [] \<and> v = s)"

definition map_synced :: "string option \<Rightarrow> json \<Rightarrow> json \<Rightarrow> bool" where
  \<comment> \<open>a cached status map and the field it mirrors\<close>
  "map_synced stored d m =
     (is_status_object m \<and> (case stored of None \<Rightarrow> m = d | Some s \<Rightarrow> s = stringify m))"

definition maps_in_sync :: "World \<Rightarrow> bool" where
  \<comment> \<open>the three cached status maps mirror the state\<close>
  "maps_in_sync w =
     (map_synced (localStorage w ''praxis-case-status-colors'') DEFAULT_STATUS_COLORS
        (caseStatusColors (theme w))
      \<and> map_synced (localStorage w ''praxis-task-status-colors'') DEFAULT_STATUS_COLORS
           (taskStatusColors (theme w))
      \<and> map_synced (localStorage w ''praxis-case-status-text-colors'') DEFAULT_TEXT_COLORS
           (caseStatusTextColors (theme w)))"

definition in_sync :: "World \<Rightarrow> bool" where
  \<comment> \<open>the local cache mirrors the state, as it does at mount over an empty cache and
      after every setter call from there\<close>
  "in_sync w =
     (let ls = localStorage w; t = theme w
      in scalar_synced (ls ''praxis-header-color'') ''#8B9474'' (headerColor t)
         \<and> scalar_synced (ls ''praxis-avatar-color'') ''#F5A65B'' (avatarColor t)
         \<and> scalar_synced (ls ''praxis-main-color'') ''#F3F4F6'' (mainColor t)
         \<and> scalar_synced (ls ''praxis-button-color'') ''#8B9474'' (buttonColor t)
         \<and> scalar_synced (ls ''praxis-status-view'') ''cases'' (currentStatusView t)
         \<and> map_synced (ls ''praxis-case-status-colors'') DEFAULT_STATUS_COLORS
              (caseStatusColors t)
         \<and> map_synced (ls ''praxis-task-status-colors'') DEFAULT_STATUS_COLORS
              (taskStatusColors t)
         \<and> map_synced (ls ''praxis-case-status-text-colors'') DEFAULT_TEXT_COLORS
              (caseStatusTextColors t))"

fun nonempty_colour :: "call \<Rightarrow> bool" where
  \<comment> \<open>the four colour setters whose cached value is read back with \<^verbatim>\<open>||\<close> are given a
      non-empty string\<close>
  "nonempty_colour (SetHeaderColor c) = (c \<noteq> [])"
| "nonempty_colour (SetAvatarColor c) = (c \<noteq> [])"
| "nonempty_colour (SetMainColor c) = (c \<noteq> [])"
| "nonempty_colour (SetButtonColor c) = (c \<noteq> [])"
| "nonempty_colour _ = True"

definition falsy_partial_payload :: ThemeSettings where
  \<comment> \<open>a payload whose header colour is the empty string and whose case-status map has a
      single entry\<close>
  "falsy_partial_payload =
     \<lparr>headerColor_opt = Some [], avatarColor_opt = None, textColor_opt = None,
      mainColor_opt = None, buttonColor_opt = None,
      caseStatusColors_opt = Some (JObj [(''completed'', JStr ''#000000'')]),
      taskStatusColors_opt = None, caseStatusTextColors_opt = None\<rparr>"

definition ready :: World where
  \<comment> \<open>the provider once its initial load has finished, with no session, over an empty
      cache\<close>
  "ready = world_of (loadThemeSettings signed_out (mount Map.empty))"

section \<open>Rounding to double precision\<close>

text \<open>
  The rounding is to a nearest neighbour on the grid of its binade, so its relative error
  is at most \<open>2\<^sup>-\<^sup>5\<^sup>3\<close>; \<open>binexp\<close> is the binary exponent it claims to be.
\<close>

lemma round_even_err: "\<bar>of_int (round_even m) - m\<bar> \<le> 1 / 2"
proof -
  have "of_int \<lfloor>m\<rfloor> \<le> m" "m < of_int \<lfloor>m\<rfloor> + 1" by linarith+
  then show ?thesis unfolding round_even_def Let_def by (auto simp: abs_le_iff)
qed

lemma binexp_le:
  assumes "x \<noteq> 0" shows "2 powi (binexp x) \<le> \<bar>x\<bar>"
proof -
  obtain p q where pq: "quotient_of \<bar>x\<bar> = (p, q)" by (cases "quotient_of \<bar>x\<bar>")
  have q: "0 < q" using pq by (rule quotient_of_denom_pos)
  have x: "\<bar>x\<bar> = of_int p / of_int q" using pq by (rule quotient_of_div)
  have p: "0 < p"
  proof -
    have "0 < \<bar>x\<bar>" using assms by simp
    then have "0 < (of_int p :: rat) / of_int q" using x by simp
    then show ?thesis using q by (simp add: zero_less_divide_iff)
  qed
  let ?k = "bitlen p - bitlen q"
  show ?thesis
  proof (cases "2 powi ?k \<le> \<bar>x\<bar>")
    case True
    then show ?thesis by (simp add: binexp_def pq)
  next
    case False
    then have be: "binexp x = ?k - 1" by (simp add: binexp_def pq)
    have bp: "2 ^ nat (bitlen p - 1) \<le> p" using bitlen_bounds [OF p] by simp
    have bq: "q < 2 ^ nat (bitlen q)" using bitlen_bounds [OF q] by simp
    have bp1: "1 \<le> bitlen p" using p by (simp add: bitlen_alt_def)
    have bq0: "0 \<le> bitlen q" by (rule bitlen_nonneg)
    have "(2::rat) powi (?k - 1) = 2 powi (bitlen p - 1) / 2 powi (bitlen q)"
      by (simp add: power_int_diff)
    also have "\<dots> = 2 ^ nat (bitlen p - 1) / 2 ^ nat (bitlen q)"
      using bp1 bq0 by (simp add: power_int_def)
    also have "\<dots> \<le> of_int p / of_int q"
    proof -
      have a: "(2::rat) ^ nat (bitlen p - 1) \<le> of_int p"
        using bp by (metis of_int_le_iff of_int_numeral of_int_power)
      have b: "(of_int q :: rat) \<le> 2 ^ nat (bitlen q)"
        using bq by (metis less_imp_le of_int_le_iff of_int_numeral of_int_power)
      show ?thesis using a b q p by (intro frac_le) auto
    qed
    finally show ?thesis using be x by simp
  qed
qed

lemma binexp_gt:
  assumes "x \<noteq> 0" shows "\<bar>x\<bar> < 2 powi (binexp x + 1)"
proof -
  obtain p q where pq: "quotient_of \<bar>x\<bar> = (p, q)" by (cases "quotient_of \<bar>x\<bar>")
  have q: "0 < q" using pq by (rule quotient_of_denom_pos)
  have x: "\<bar>x\<bar> = of_int p / of_int q" using pq by (rule quotient_of_div)
  have p: "0 < p"
  proof -
    have "0 < \<bar>x\<bar>" using assms by simp
    then have "0 < (of_int p :: rat) / of_int q" using x by simp
    then show ?thesis using q by (simp add: zero_less_divide_iff)
  qed
  let ?k = "bitlen p - bitlen q"
  have bp: "p < 2 ^ nat (bitlen p)" using bitlen_bounds [OF p] by simp
  have bq: "2 ^ nat (bitlen q - 1) \<le> q" using bitlen_bounds [OF q] by simp
  have bq1: "1 \<le> bitlen q" using q by (simp add: bitlen_alt_def)
  have bp0: "0 \<le> bitlen p" by (rule bitlen_nonneg)
  have up: "of_int p / of_int q < (2::rat) powi (?k + 1)"
  proof -
    have a: "(of_int p :: rat) < 2 ^ nat (bitlen p)"
      using bp by (metis of_int_less_iff of_int_numeral of_int_power)
    have b: "(2::rat) ^ nat (bitlen q - 1) \<le> of_int q"
      using bq by (metis of_int_le_iff of_int_numeral of_int_power)
    have "of_int p / of_int q < (2::rat) ^ nat (bitlen p) / 2 ^ nat (bitlen q - 1)"
      using a b q p by (intro frac_less) auto
    also have "\<dots> = 2 powi (bitlen p) / 2 powi (bitlen q - 1)"
      using bq1 bp0 by (simp add: power_int_def)
    also have "\<dots> = 2 powi (?k + 1)"
      by (simp add: power_int_diff power_int_add)
    finally show ?thesis .
  qed
  show ?thesis
  proof (cases "2 powi ?k \<le> \<bar>x\<bar>")
    case True
    then have "binexp x = ?k" by (simp add: binexp_def pq)
    then show ?thesis using up x by simp
  next
    case False
    then have "binexp x = ?k - 1" by (simp add: binexp_def pq)
    then show ?thesis using False by simp
  qed
qed

lemma fl_err: "\<bar>fl x - x\<bar> \<le> \<bar>x\<bar> / 2 ^ 53"
proof (cases "x = 0")
  case True then show ?thesis by (simp add: fl_def)
next
  case False
  define e where "e = binexp x - 52"
  define m where "m = x / 2 powi e"
  have pe: "(0::rat) < 2 powi e" by simp
  have flx: "fl x = of_int (round_even m) * 2 powi e"
    using False by (simp add: fl_def e_def m_def Let_def)
  have xm: "x = m * 2 powi e" by (simp add: m_def)
  have "fl x - x = (of_int (round_even m) - m) * 2 powi e"
    by (simp add: flx xm [symmetric] algebra_simps m_def)
  then have "\<bar>fl x - x\<bar> = \<bar>of_int (round_even m) - m\<bar> * 2 powi e"
    by (simp add: abs_mult)
  also have "\<dots> \<le> 1 / 2 * 2 powi e"
    using round_even_err [of m] pe by (intro mult_right_mono) auto
  also have "\<dots> = 2 powi (binexp x) / 2 ^ 53"
    by (simp add: e_def power_int_diff)
  also have "\<dots> \<le> \<bar>x\<bar> / 2 ^ 53"
    using binexp_le [OF False] by (simp add: divide_right_mono)
  finally show ?thesis .
qed

lemma fl_lower: "0 \<le> x \<Longrightarrow> x * (1 - 1 / 2 ^ 53) \<le> fl x"
proof -
  assume "0 \<le> x"
  then have "- (x / 2 ^ 53) \<le> fl x - x" using fl_err [of x] by linarith
  then show ?thesis by (simp add: algebra_simps)
qed

lemma fl_upper: "0 \<le> x \<Longrightarrow> fl x \<le> x * (1 + 1 / 2 ^ 53)"
proof -
  assume "0 \<le> x"
  then have "fl x - x \<le> x / 2 ^ 53" using fl_err [of x] by linarith
  then show ?thesis by (simp add: algebra_simps)
qed

lemma fl_nonneg: "0 \<le> x \<Longrightarrow> 0 \<le> fl x"
proof -
  assume x: "0 \<le> x"
  have "0 \<le> x * (1 - 1 / 2 ^ 53)" using x by (intro mult_nonneg_nonneg) simp_all
  then show ?thesis using fl_lower [OF x] by linarith
qed


text \<open>The three literals of the luminance formula, as doubles.\<close>

lemma c299: "fl (299 / 1000) = 5386305154335113 / 18014398509481984" by code_simp

lemma c587: "fl (587 / 1000) = 2643612981266481 / 4503599627370496" by code_simp

lemma c114: "fl (114 / 1000) = 8214565720323785 / 72057594037927936" by code_simp


text \<open>
  Away from the threshold the double computation agrees with exact arithmetic: the
  weighted sum \<open>299 R + 587 G + 114 B\<close> is an integer, so an exact luminance other than
  \<open>1/2\<close> is at least \<open>1/255000\<close> away from it, far more than five roundings can move.
\<close>

lemma luminance_above:
  assumes "0 \<le> r" "0 \<le> g" "0 \<le> b" "1 / 2 < exact_luminance r g b"
  shows "1 / 2 < luminance r g b"
proof -
  define R G B :: rat where "R = of_int r" and "G = of_int g" and "B = of_int b"
  have nn: "0 \<le> R" "0 \<le> G" "0 \<le> B" using assms by (simp_all add: R_def G_def B_def)
  have "(127500::rat) < of_int (299 * r + 587 * g + 114 * b)"
    using assms(4) by (simp add: exact_luminance_def field_simps)
  then have "127500 < 299 * r + 587 * g + 114 * b"
    by (metis of_int_less_iff of_int_numeral)
  then have "127501 \<le> 299 * r + 587 * g + 114 * b" by simp
  then have "(of_int 127501 :: rat) \<le> of_int (299 * r + 587 * g + 114 * b)"
    by (simp only: of_int_le_iff)
  then have S: "127501 \<le> 299 * R + 587 * G + 114 * B"
    by (simp add: R_def G_def B_def)
  define p1 where "p1 = fl (fl (299 / 1000) * R)"
  define p2 where "p2 = fl (fl (587 / 1000) * G)"
  define p3 where "p3 = fl (fl (114 / 1000) * B)"
  define s1 where "s1 = fl (p1 + p2)"
  define s2 where "s2 = fl (s1 + p3)"
  have p1: "5386305154335113 / 18014398509481984 * R * (1 - 1 / 2 ^ 53) \<le> p1"
    unfolding p1_def c299 using nn by (intro fl_lower) simp
  have p2: "2643612981266481 / 4503599627370496 * G * (1 - 1 / 2 ^ 53) \<le> p2"
    unfolding p2_def c587 using nn by (intro fl_lower) simp
  have p3: "8214565720323785 / 72057594037927936 * B * (1 - 1 / 2 ^ 53) \<le> p3"
    unfolding p3_def c114 using nn by (intro fl_lower) simp
  have p1n: "0 \<le> p1" unfolding p1_def c299 using nn by (intro fl_nonneg) simp
  have p2n: "0 \<le> p2" unfolding p2_def c587 using nn by (intro fl_nonneg) simp
  have p3n: "0 \<le> p3" unfolding p3_def c114 using nn by (intro fl_nonneg) simp
  have s1: "(p1 + p2) * (1 - 1 / 2 ^ 53) \<le> s1"
    unfolding s1_def using p1n p2n by (intro fl_lower) simp
  have s1n: "0 \<le> s1" unfolding s1_def using p1n p2n by (intro fl_nonneg) simp
  have s2: "(s1 + p3) * (1 - 1 / 2 ^ 53) \<le> s2"
    unfolding s2_def using s1n p3n by (intro fl_lower) simp
  have s2n: "0 \<le> s2" unfolding s2_def using s1n p3n by (intro fl_nonneg) simp
  have l: "s2 / 255 * (1 - 1 / 2 ^ 53) \<le> fl (s2 / 255)"
    using s2n by (intro fl_lower) simp
  have lum: "luminance r g b = fl (s2 / 255)"
    by (simp add: luminance_def s2_def s1_def p1_def p2_def p3_def R_def G_def B_def)
  show ?thesis
    unfolding lum using S nn p1 p2 p3 s1 s2 l by (simp add: algebra_simps)
qed

lemma luminance_below:
  assumes "0 \<le> r" "0 \<le> g" "0 \<le> b" "exact_luminance r g b < 1 / 2"
  shows "luminance r g b < 1 / 2"
proof -
  define R G B :: rat where "R = of_int r" and "G = of_int g" and "B = of_int b"
  have nn: "0 \<le> R" "0 \<le> G" "0 \<le> B" using assms by (simp_all add: R_def G_def B_def)
  have "of_int (299 * r + 587 * g + 114 * b) < (127500::rat)"
    using assms(4) by (simp add: exact_luminance_def field_simps)
  then have "299 * r + 587 * g + 114 * b < 127500"
    by (metis of_int_less_iff of_int_numeral)
  then have "299 * r + 587 * g + 114 * b \<le> 127499" by simp
  then have "of_int (299 * r + 587 * g + 114 * b) \<le> (of_int 127499 :: rat)"
    by (simp only: of_int_le_iff)
  then have S: "299 * R + 587 * G + 114 * B \<le> 127499"
    by (simp add: R_def G_def B_def)
  define p1 where "p1 = fl (fl (299 / 1000) * R)"
  define p2 where "p2 = fl (fl (587 / 1000) * G)"
  define p3 where "p3 = fl (fl (114 / 1000) * B)"
  define s1 where "s1 = fl (p1 + p2)"
  define s2 where "s2 = fl (s1 + p3)"
  have p1: "p1 \<le> 5386305154335113 / 18014398509481984 * R * (1 + 1 / 2 ^ 53)"
    unfolding p1_def c299 using nn by (intro fl_upper) simp
  have p2: "p2 \<le> 2643612981266481 / 4503599627370496 * G * (1 + 1 / 2 ^ 53)"
    unfolding p2_def c587 using nn by (intro fl_upper) simp
  have p3: "p3 \<le> 8214565720323785 / 72057594037927936 * B * (1 + 1 / 2 ^ 53)"
    unfolding p3_def c114 using nn by (intro fl_upper) simp
  have p1n: "0 \<le> p1" unfolding p1_def c299 using nn by (intro fl_nonneg) simp
  have p2n: "0 \<le> p2" unfolding p2_def c587 using nn by (intro fl_nonneg) simp
  have p3n: "0 \<le> p3" unfolding p3_def c114 using nn by (intro fl_nonneg) simp
  have s1: "s1 \<le> (p1 + p2) * (1 + 1 / 2 ^ 53)"
    unfolding s1_def using p1n p2n by (intro fl_upper) simp
  have s1n: "0 \<le> s1" unfolding s1_def using p1n p2n by (intro fl_nonneg) simp
  have s2: "s2 \<le> (s1 + p3) * (1 + 1 / 2 ^ 53)"
    unfolding s2_def using s1n p3n by (intro fl_upper) simp
  have s2n: "0 \<le> s2" unfolding s2_def using s1n p3n by (intro fl_nonneg) simp
  have l: "fl (s2 / 255) \<le> s2 / 255 * (1 + 1 / 2 ^ 53)"
    using s2n by (intro fl_upper) simp
  have lum: "luminance r g b = fl (s2 / 255)"
    by (simp add: luminance_def s2_def s1_def p1_def p2_def p3_def R_def G_def B_def)
  show ?thesis
    unfolding lum using S nn p1 p2 p3 s1 s2 l by (simp add: algebra_simps)
qed


section \<open>\<open>isLightColor\<close>\<close>

lemma is_hex_plain:
  assumes "is_hex c"
  shows "\<not> is_js_space c" "c \<noteq> CHR ''-''" "c \<noteq> CHR ''+''" "c \<noteq> CHR ''x''" "c \<noteq> CHR ''X''"
    "c \<noteq> CHR ''#''"
  using assms by (auto simp: is_hex_def hex_digit_def is_js_space_def Let_def split: if_splits)

lemma parseInt16_hex2:
  assumes "is_hex a" "is_hex b"
  shows "parseInt16 [a, b] = Some (int (hex_value [a, b]))"
  using assms is_hex_plain [OF assms(1)] is_hex_plain [OF assms(2)]
  by (simp add: parseInt16_def)

lemma length_six:
  assumes "length h = 6"
  obtains a b c d e f where "h = [a, b, c, d, e, f]"
  using assms by (auto simp: numeral_eq_Suc length_Suc_conv)

lemma isLightColor_digits:
  assumes "list_all is_hex [a, b, c, d, e, f]"
  shows "isLightColor [a, b, c, d, e, f]
         = (1 / 2 < luminance (int (hex_value [a, b])) (int (hex_value [c, d])) (int (hex_value [e, f])))"
proof -
  have nh: "a \<noteq> CHR ''#''" "b \<noteq> CHR ''#''" "c \<noteq> CHR ''#''" "d \<noteq> CHR ''#''" "e \<noteq> CHR ''#''"
    "f \<noteq> CHR ''#''"
    using assms is_hex_plain(6) by auto
  have r: "replace_hash [a, b, c, d, e, f] = [a, b, c, d, e, f]"
    using nh by (simp add: replace_hash_def)
  show ?thesis
    using assms by (simp add: isLightColor_def r substring_def parseInt16_hex2)
qed

lemma isLightColor_hash:
  "CHR ''#'' \<notin> set h \<Longrightarrow> isLightColor (CHR ''#'' # h) = isLightColor h"
  by (simp add: isLightColor_def replace_hash_def remove1_idem)

lemma isLightColor_valid:
  assumes "valid_hex6 h" "s = h \<or> s = CHR ''#'' # h"
  shows "isLightColor s = (1 / 2 < luminance (channel 0 h) (channel 1 h) (channel 2 h))"
proof -
  obtain a b c d e f where h: "h = [a, b, c, d, e, f]"
    using assms(1) by (auto simp: valid_hex6_def elim: length_six)
  have hx: "list_all is_hex [a, b, c, d, e, f]" using assms(1) h by (simp add: valid_hex6_def)
  have nh: "CHR ''#'' \<notin> set h"
    using hx is_hex_plain(6) unfolding h by auto
  have "isLightColor s = isLightColor h"
    using assms(2) nh by (auto simp: isLightColor_hash)
  also have "\<dots> = (1 / 2 < luminance (channel 0 h) (channel 1 h) (channel 2 h))"
    unfolding h using isLightColor_digits [OF hx] by (simp add: channel_def)
  finally show ?thesis .
qed

lemma substring_take6:
  "b \<le> 6 \<Longrightarrow> a \<le> b \<Longrightarrow> substring a b (take 6 s) = substring a b s"
  by (simp add: substring_def drop_take min_def max_def)

lemma isLightColor_take6:
  "isLightColor s =
     (case (parseInt16 (substring 0 2 (take 6 (replace_hash s))),
            parseInt16 (substring 2 4 (take 6 (replace_hash s))),
            parseInt16 (substring 4 6 (take 6 (replace_hash s)))) of
        (Some r, Some g, Some b) \<Rightarrow> 1 / 2 < luminance r g b
      | _ \<Rightarrow> False)"
  by (simp add: isLightColor_def Let_def substring_take6)

lemma isLightColor_cong:
  "take 6 (replace_hash s) = take 6 (replace_hash s') \<Longrightarrow> isLightColor s = isLightColor s'"
  by (simp add: isLightColor_take6)

lemma isLightColor_append:
  assumes "length h = 6" "CHR ''#'' \<notin> set h"
  shows "isLightColor (h @ t) = isLightColor h"
proof (rule isLightColor_cong)
  have "replace_hash (h @ t) = h @ replace_hash t"
    using assms(2) by (simp add: replace_hash_def remove1_append)
  moreover have "replace_hash h = h" using assms(2) by (simp add: replace_hash_def remove1_idem)
  ultimately show "take 6 (replace_hash (h @ t)) = take 6 (replace_hash h)"
    using assms(1) by simp
qed

lemma isLightColor_NaN:
  assumes "parseInt16 (substring 0 2 (replace_hash s)) = None
           \<or> parseInt16 (substring 2 4 (replace_hash s)) = None
           \<or> parseInt16 (substring 4 6 (replace_hash s)) = None"
  shows "\<not> isLightColor s"
  using assms by (auto simp: isLightColor_def Let_def split: option.splits)


lemma channel_nonneg: "0 \<le> channel i h"
  by (simp add: channel_def)

text \<open>
  C3, as the code has it. For six hexadecimal digits, with or without a leading \<^verbatim>\<open>#\<close>,
  \<open>isLightColor\<close> is the test \<open>luminance > 0.5\<close> on the decoded components, computed in
  double precision; it is true whenever the exact luminance is above \<open>0.5\<close> and false
  whenever it is below. White is light and black is dark. At an exact luminance of
  \<open>0.5\<close> the roundings decide: \<^verbatim>\<open>#00CC44\<close> is not light, \<^verbatim>\<open>#DA3AF8\<close> is. The result
  is false whenever one of the three two-character slices is \<open>NaN\<close> for \<open>parseInt\<close>;
  other malformed input is computed from whatever \<open>parseInt\<close> reads.
\<close>

theorem isLightColor_threshold:
  "(valid_hex6 h \<and> (s = h \<or> s = CHR ''#'' # h) \<longrightarrow>
      (isLightColor s \<longleftrightarrow> 1 / 2 < luminance (channel 0 h) (channel 1 h) (channel 2 h))
      \<and> (1 / 2 < exact_luminance (channel 0 h) (channel 1 h) (channel 2 h) \<longrightarrow> isLightColor s)
      \<and> (exact_luminance (channel 0 h) (channel 1 h) (channel 2 h) < 1 / 2
           \<longrightarrow> \<not> isLightColor s))
   \<and> isLightColor ''#FFFFFF'' \<and> \<not> isLightColor ''#000000''
   \<and> exact_luminance 0 204 68 = 1 / 2 \<and> \<not> isLightColor ''#00CC44''
   \<and> exact_luminance 218 58 248 = 1 / 2 \<and> isLightColor ''#DA3AF8''
   \<and> (parseInt16 (substring 0 2 (replace_hash t)) = None
       \<or> parseInt16 (substring 2 4 (replace_hash t)) = None
       \<or> parseInt16 (substring 4 6 (replace_hash t)) = None \<longrightarrow> \<not> isLightColor t)"
proof -
  have v: "isLightColor s \<longleftrightarrow> 1 / 2 < luminance (channel 0 h) (channel 1 h) (channel 2 h)"
    if "valid_hex6 h" "s = h \<or> s = CHR ''#'' # h"
    using that by (rule isLightColor_valid)
  have up: "1 / 2 < luminance (channel 0 h) (channel 1 h) (channel 2 h)"
    if "1 / 2 < exact_luminance (channel 0 h) (channel 1 h) (channel 2 h)"
    using that by (intro luminance_above channel_nonneg)
  have down: "\<not> 1 / 2 < luminance (channel 0 h) (channel 1 h) (channel 2 h)"
    if "exact_luminance (channel 0 h) (channel 1 h) (channel 2 h) < 1 / 2"
    using luminance_below [OF channel_nonneg channel_nonneg channel_nonneg that] by simp
  have white: "isLightColor ''#FFFFFF''" by code_simp
  have black: "\<not> isLightColor ''#000000''" by code_simp
  have e1: "exact_luminance 0 204 68 = 1 / 2" by (simp add: exact_luminance_def)
  have d1: "\<not> isLightColor ''#00CC44''" by code_simp
  have e2: "exact_luminance 218 58 248 = 1 / 2" by (simp add: exact_luminance_def)
  have l2: "isLightColor ''#DA3AF8''" by code_simp
  show ?thesis
    using v up down white black e1 d1 e2 l2 isLightColor_NaN [of t] by blast
qed

text \<open>
  C3, an instance: \<^verbatim>\<open>#1E3A5A\<close> has an exact luminance below \<open>0.5\<close> and is dark, and
  \<^verbatim>\<open>zz0000\<close>, whose first slice is \<open>NaN\<close>, is dark.
\<close>

theorem isLightColor_threshold_witness:
  "valid_hex6 ''1E3A5A''
   \<and> exact_luminance (channel 0 ''1E3A5A'') (channel 1 ''1E3A5A'') (channel 2 ''1E3A5A'') < 1 / 2
   \<and> \<not> isLightColor ''#1E3A5A''
   \<and> parseInt16 (substring 0 2 (replace_hash ''zz0000'')) = None
   \<and> \<not> isLightColor ''zz0000''"
proof -
  have a: "valid_hex6 ''1E3A5A''" by code_simp
  have b: "exact_luminance (channel 0 ''1E3A5A'') (channel 1 ''1E3A5A'') (channel 2 ''1E3A5A'')
           < 1 / 2"
    by code_simp
  have c: "parseInt16 (substring 0 2 (replace_hash ''zz0000'')) = None" by code_simp
  show ?thesis
    using isLightColor_threshold [where h = "''1E3A5A''" and s = "''#1E3A5A''" and t = "''zz0000''"]
      a b c
    by blast
qed

text \<open>
  C3 as stated fails twice. Malformed input is not always dark: the eight digits
  \<^verbatim>\<open>FFFFFFFF\<close> (wrong length) and \<^verbatim>\<open>FFFFFg\<close> (a character that is no digit) are
  light. And a colour whose luminance is exactly \<open>0.5\<close> can be light: \<^verbatim>\<open>#DA3AF8\<close>
  has \<open>299 \<times> 218 + 587 \<times> 58 + 114 \<times> 248 = 127500\<close>, and the double computation gives
  \<open>0.5 + 2\<^sup>-\<^sup>5\<^sup>3\<close>.
\<close>

theorem isLightColor_malformed_or_boundary_light:
  "length ''FFFFFFFF'' \<noteq> 6 \<and> isLightColor ''FFFFFFFF''
   \<and> \<not> list_all is_hex ''FFFFFg'' \<and> isLightColor ''FFFFFg''
   \<and> valid_hex6 ''DA3AF8''
   \<and> exact_luminance (channel 0 ''DA3AF8'') (channel 1 ''DA3AF8'') (channel 2 ''DA3AF8'') = 1 / 2
   \<and> luminance (channel 0 ''DA3AF8'') (channel 1 ''DA3AF8'') (channel 2 ''DA3AF8'')
       = 1 / 2 + 1 / 2 ^ 53
   \<and> isLightColor ''#DA3AF8''"
  by code_simp

text \<open>
  C10, as the code has it. \<open>isLightColor\<close> depends on its argument only through the
  first six characters left once the first \<^verbatim>\<open>#\<close> is removed; so for six characters
  \<open>h\<close> without a \<^verbatim>\<open>#\<close> and any suffix \<open>t\<close>, \<open>isLightColor (h @ t) = isLightColor h\<close>.
\<close>

theorem isLightColor_first_six:
  "(take 6 (replace_hash s) = take 6 (replace_hash s') \<longrightarrow> isLightColor s = isLightColor s')
   \<and> (length h = 6 \<and> CHR ''#'' \<notin> set h \<longrightarrow> isLightColor (h @ t) = isLightColor h)"
  using isLightColor_cong isLightColor_append by blast

text \<open>
  C10, an instance: an alpha channel after \<^verbatim>\<open>#FFFFFF\<close> changes nothing, and neither
  does a suffix after \<^verbatim>\<open>8B9474\<close>, even one that holds a \<^verbatim>\<open>#\<close>.
\<close>

theorem isLightColor_first_six_witness:
  "take 6 (replace_hash ''#FFFFFF80'') = take 6 (replace_hash ''FFFFFF'')
   \<and> isLightColor ''#FFFFFF80'' = isLightColor ''FFFFFF''
   \<and> length ''8B9474'' = 6 \<and> CHR ''#'' \<notin> set ''8B9474''
   \<and> isLightColor (''8B9474'' @ ''#00'') = isLightColor ''8B9474''"
proof -
  have a: "take 6 (replace_hash ''#FFFFFF80'') = take 6 (replace_hash ''FFFFFF'')"
    by (simp add: replace_hash_def)
  have b: "length ''8B9474'' = 6 \<and> CHR ''#'' \<notin> set ''8B9474''" by simp
  show ?thesis
    using isLightColor_first_six [where s = "''#FFFFFF80''" and s' = "''FFFFFF''"
        and h = "''8B9474''" and t = "''#00''"] a b
    by blast
qed

text \<open>
  C10 as stated asks nothing of the six characters \<open>h\<close>. When \<open>h\<close> itself holds the
  \<^verbatim>\<open>#\<close>, removing it lets the first character of the suffix into the blue slice:
  \<^verbatim>\<open>#8080F\<close> is dark and \<^verbatim>\<open>#8080F\<close> followed by \<^verbatim>\<open>F\<close> is light.
\<close>

theorem isLightColor_suffix_counterexample:
  "length ''#8080F'' = 6 \<and> CHR ''#'' \<notin> set ''F''
   \<and> isLightColor (''#8080F'' @ ''F'') \<and> \<not> isLightColor ''#8080F''"
  by code_simp


section \<open>JSON text of a status map\<close>

text \<open>
  What \<open>stringify\<close> writes for a string, the lexer reads back; hence a status map of the
  declared type survives the cache.
\<close>

lemma hex_digit_hex_char: "d < 16 \<Longrightarrow> hex_digit (hex_char d) = Some d"
  by (auto simp: hex_digit_def hex_char_def Let_def)

lemma hex_digit_zero: "hex_digit (CHR ''0'') = Some 0"
  by (simp add: hex_digit_def)

lemma char_of_named:
  "char_of (8::nat) = CHR 0x08" "char_of (9::nat) = CHR 0x09" "char_of (10::nat) = CHR 0x0A"
  "char_of (12::nat) = CHR 0x0C" "char_of (13::nat) = CHR 0x0D" "char_of (34::nat) = CHR 0x22"
  "char_of (92::nat) = CHR 0x5C"
  by code_simp+

lemma lex_string_step:
  "lex_string (escape_char c @ xs)
     = map_option (\<lambda>(s, n). (c # s, n + length (escape_char c))) (lex_string xs)"
proof -
  define n where "n = (of_char c :: nat)"
  have c: "c = char_of n" by (simp add: n_def)
  have n256: "n < 256" by (simp add: n_def)
  consider "n = 8" | "n = 9" | "n = 10" | "n = 12" | "n = 13" | "n = 34" | "n = 92"
    | "n < 32" "n \<notin> {8, 9, 10, 12, 13}" | "32 \<le> n" "n \<noteq> 34" "n \<noteq> 92"
    by fastforce
  then show ?thesis
  proof cases
    case 8
    have d: "n div 16 < 16" "n mod 16 < 16" using 8 by simp_all
    have ne: "c \<noteq> CHR 0x22" "c \<noteq> CHR 0x5C" using 8 by (auto simp: n_def)
    have e: "escape_char c = [CHR 0x5C, CHR ''u'', CHR ''0'', CHR ''0'',
                              hex_char (n div 16), hex_char (n mod 16)]"
      using 8 by (auto simp: escape_char_def n_def [symmetric] Let_def)
    have hv: "hex_value [CHR ''0'', CHR ''0'', hex_char (n div 16), hex_char (n mod 16)] = n"
      using d by (simp add: hex_value_def hex_digit_hex_char hex_digit_zero)
    have ih: "list_all is_hex [CHR ''0'', CHR ''0'', hex_char (n div 16), hex_char (n mod 16)]"
      using d by (simp add: is_hex_def hex_digit_hex_char hex_digit_zero)
    have six: "k + 6 = Suc (Suc (Suc (Suc (Suc (Suc k)))))" for k :: nat by simp
    show ?thesis
      unfolding e using hv ih n256 c by (simp add: six)
  next
    case 9
    then have ne: "c \<noteq> CHR 0x22" "c \<noteq> CHR 0x5C" by (auto simp: n_def)
    have e: "escape_char c = [c]"
      using 9 by (auto simp: escape_char_def n_def [symmetric] Let_def)
    show ?thesis unfolding e using ne 9 by (simp add: n_def)
  qed (auto simp: escape_char_def n_def [symmetric] Let_def unescape_def c char_of_named)
qed

lemma lex_string_escape:
  "lex_string (concat (map escape_char s) @ CHR 0x22 # rest)
     = Some (s, length (concat (map escape_char s)) + 1)"
  by (induction s) (simp_all add: lex_string_step)

lemma tokenize_quote:
  "tokenize (quote s @ rest) = map_option (Cons (TStr s)) (tokenize rest)"
  by (simp add: quote_def is_json_space_def lex_string_escape)


lemma parse_status_object:
  "JSON_parse (stringify (status_object a b c d)) = Some (status_object a b c d)"
  by (simp add: status_object_def JSON_parse_def tokenize_quote is_json_space_def
        pvalue.simps pelems.simps pmembers.simps obj_put_def is_array_index_def is_digit_def)

text \<open>
  \<open>pvalue\<close> consumes what it parses, so the tests on lengths in \<open>pelems\<close> and
  \<open>pmembers\<close> are always passed.
\<close>

lemma parse_shorter_aux:
  "\<forall>ts. length ts \<le> n \<longrightarrow>
     (\<forall>v r. pvalue ts = Some (v, r) \<longrightarrow> length r < length ts)
     \<and> (\<forall>acc v r. pelems acc ts = Some (v, r) \<longrightarrow> length r < length ts)
     \<and> (\<forall>acc v r. pmembers acc ts = Some (v, r) \<longrightarrow> length r < length ts)"
proof (induction n)
  case 0
  show ?case
    by (auto simp: pvalue.simps [of "[]"] pelems.simps [of _ "[]"] pmembers.simps [of _ "[]"])
next
  case (Suc n)
  show ?case
  proof (intro allI impI)
    fix ts :: "token list"
    assume len: "length ts \<le> Suc n"
    have ih_e: "length r < length us" if "pelems acc us = Some (v, r)" "length us \<le> n"
      for acc us v r using Suc that by blast
    have ih_m: "length r < length us" if "pmembers acc us = Some (v, r)" "length us \<le> n"
      for acc us v r using Suc that by blast
    have pv: "length r < length ts" if a: "pvalue ts = Some (v, r)" for v r
    proof (cases ts)
      case Nil
      then show ?thesis using a by (simp add: pvalue.simps [of "[]"])
    next
      case (Cons t ts')
      have l': "length ts' \<le> n" using len Cons by simp
      show ?thesis
      proof (cases t)
        case TLBrace
        show ?thesis
        proof (cases "\<exists>r'. ts' = TRBrace # r'")
          case True
          then show ?thesis using a Cons TLBrace by (auto simp: pvalue.simps)
        next
          case False
          then have "pvalue ts = pmembers [] ts'"
            using Cons TLBrace
            by (auto simp: pvalue.simps split: list.splits token.splits)
          then show ?thesis using a ih_m [of "[]" ts' v r] l' Cons by simp
        qed
      next
        case TLBrack
        show ?thesis
        proof (cases "\<exists>r'. ts' = TRBrack # r'")
          case True
          then show ?thesis using a Cons TLBrack by (auto simp: pvalue.simps)
        next
          case False
          then have "pvalue ts = pelems [] ts'"
            using Cons TLBrack
            by (auto simp: pvalue.simps split: list.splits token.splits)
          then show ?thesis using a ih_e [of "[]" ts' v r] l' Cons by simp
        qed
      qed (use a Cons in \<open>auto simp: pvalue.simps\<close>)
    qed
    have pe: "length r < length ts" if a: "pelems acc ts = Some (v, r)" for acc v r
    proof -
      obtain v1 r1 where p: "pvalue ts = Some (v1, r1)" "length r1 < length ts"
        using a by (auto simp: pelems.simps split: option.splits if_splits)
      show ?thesis
      proof (cases r1)
        case Nil
        then show ?thesis using a p by (simp add: pelems.simps)
      next
        case (Cons t r')
        have l': "length r' \<le> n" using p(2) len Cons by simp
        show ?thesis
        proof (cases t)
          case TComma
          then have "pelems (acc @ [v1]) r' = Some (v, r)"
            using a p Cons by (simp add: pelems.simps)
          then show ?thesis using ih_e l' p Cons by fastforce
        next
          case TRBrack
          then show ?thesis using a p Cons by (auto simp: pelems.simps)
        qed (use a p Cons in \<open>auto simp: pelems.simps\<close>)
      qed
    qed
    have pm: "length r < length ts" if a: "pmembers acc ts = Some (v, r)" for acc v r
    proof -
      obtain k ts' where ts: "ts = TStr k # TColon # ts'"
        using a by (auto simp: pmembers.simps split: list.splits token.splits)
      have lt: "length ts' \<le> n" using len ts by simp
      obtain v1 r1 where p: "pvalue ts' = Some (v1, r1)" "length r1 < length ts'"
        using a ts by (auto simp: pmembers.simps split: option.splits if_splits)
      show ?thesis
      proof (cases r1)
        case Nil
        then show ?thesis using a p ts by (simp add: pmembers.simps)
      next
        case (Cons t r')
        have l': "length r' \<le> n" using p(2) lt Cons by simp
        show ?thesis
        proof (cases t)
          case TComma
          then have "pmembers (obj_put k v1 acc) r' = Some (v, r)"
            using a p ts Cons by (simp add: pmembers.simps)
          then show ?thesis using ih_m l' p ts Cons by fastforce
        next
          case TRBrace
          then show ?thesis using a p ts Cons by (auto simp: pmembers.simps)
        qed (use a p ts Cons in \<open>auto simp: pmembers.simps\<close>)
      qed
    qed
    show "(\<forall>v r. pvalue ts = Some (v, r) \<longrightarrow> length r < length ts)
          \<and> (\<forall>acc v r. pelems acc ts = Some (v, r) \<longrightarrow> length r < length ts)
          \<and> (\<forall>acc v r. pmembers acc ts = Some (v, r) \<longrightarrow> length r < length ts)"
      using pv pe pm by blast
  qed
qed

lemma pvalue_shorter: "pvalue ts = Some (v, r) \<Longrightarrow> length r < length ts"
  using parse_shorter_aux [of "length ts"] by blast

lemma pelems_unguarded:
  "pelems acc ts =
     (case pvalue ts of
        None \<Rightarrow> None
      | Some (v, r) \<Rightarrow>
          (case r of
             TComma # r' \<Rightarrow> pelems (acc @ [v]) r'
           | TRBrack # r' \<Rightarrow> Some (JArr (acc @ [v]), r')
           | _ \<Rightarrow> None))"
  by (subst pelems.simps) (auto split: option.splits dest: pvalue_shorter)

lemma pmembers_unguarded:
  "pmembers acc (TStr k # TColon # ts) =
     (case pvalue ts of
        None \<Rightarrow> None
      | Some (v, r) \<Rightarrow>
          (case r of
             TComma # r' \<Rightarrow> pmembers (obj_put k v acc) r'
           | TRBrace # r' \<Rightarrow> Some (JObj (obj_put k v acc), r')
           | _ \<Rightarrow> None))"
  by (subst pmembers.simps) (auto split: option.splits dest: pvalue_shorter)


section \<open>Objects\<close>

lemma map_of_replace:
  "map_of (map (\<lambda>(k', v'). if k' = k then (k', v) else (k', v')) kvs) k'' =
     (if k'' = k then (if k \<in> set (map fst kvs) then Some v else None) else map_of kvs k'')"
  by (induction kvs) (auto split: if_splits)

lemma map_of_insert:
  assumes "k \<notin> set (map fst (xs @ ys))"
  shows "map_of (xs @ (k, v) # ys) = (map_of (xs @ ys))(k \<mapsto> v)"
proof
  fix k'
  have "map_of xs k = None" using assms by (simp add: map_of_eq_None_iff)
  then show "map_of (xs @ (k, v) # ys) k' = ((map_of (xs @ ys))(k \<mapsto> v)) k'"
    by (auto simp: map_add_def split: option.splits)
qed

lemma map_of_obj_put: "map_of (obj_put k v kvs) = (map_of kvs)(k \<mapsto> v)"
proof (cases "k \<in> set (map fst kvs)")
  case True
  then show ?thesis by (auto simp: obj_put_def map_of_replace fun_eq_iff)
next
  case False
  show ?thesis
  proof (cases "is_array_index k")
    case True
    let ?P = "\<lambda>(k', _). is_array_index k' \<and> dec_value k' < dec_value k"
    have "k \<notin> set (map fst (takeWhile ?P kvs @ dropWhile ?P kvs))" using False by simp
    then have "map_of (takeWhile ?P kvs @ (k, v) # dropWhile ?P kvs)
               = (map_of (takeWhile ?P kvs @ dropWhile ?P kvs))(k \<mapsto> v)"
      by (rule map_of_insert)
    then show ?thesis using False True by (simp add: obj_put_def)
  next
    case nidx: False
    have "map_of (kvs @ (k, v) # []) = (map_of (kvs @ []))(k \<mapsto> v)"
      using False by (intro map_of_insert) simp
    then show ?thesis using False nidx by (simp add: obj_put_def)
  qed
qed

lemma keys_obj_put: "fst ` set (obj_put k v kvs) = insert k (fst ` set kvs)"
proof -
  have "dom (map_of (obj_put k v kvs)) = insert k (dom (map_of kvs))"
    by (simp add: map_of_obj_put)
  then show ?thesis by (simp add: dom_map_of_conv_image_fst)
qed

lemma own_entries_JObj [simp]: "own_entries (JObj kvs) = kvs"
  by (simp add: own_entries_def)

lemma get_prop_spread:
  "get_prop (spread_with m k x) k' = (if k' = k then Some x else get_prop m k')"
  by (simp add: get_prop_def spread_with_def map_of_obj_put)

lemma own_keys_spread: "set (own_keys (spread_with m k x)) = insert k (set (own_keys m))"
  by (simp add: own_keys_def spread_with_def keys_obj_put)


section \<open>Saving and the setters\<close>

lemma log_simps [simp]:
  "theme (log e w) = theme w" "localStorage (log e w) = localStorage w"
  "trace (log e w) = trace w @ [e]"
  by (simp_all add: log_def)

lemma setInitialized_simps [simp]:
  "theme (setInitialized w) = (theme w)\<lparr>initialized := True\<rparr>"
  "localStorage (setInitialized w) = localStorage w"
  "trace (setInitialized w) = trace w @ [SetInitialized]"
  by (simp_all add: setInitialized_def log_def)

lemma setItem_simps [simp]:
  "theme (setItem k v w) = theme w"
  "trace (setItem k v w) = trace w"
  "localStorage (setItem k v w) = (localStorage w)(k \<mapsto> v)"
  by (simp_all add: setItem_def)

lemma save_theme [simp]: "theme (saveThemeToDatabase be p w) = theme w"
  by (simp add: saveThemeToDatabase_def log_def Let_def split: reply.splits option.splits)

lemma save_localStorage [simp]: "localStorage (saveThemeToDatabase be p w) = localStorage w"
  by (simp add: saveThemeToDatabase_def log_def Let_def split: reply.splits option.splits)

lemma trace_saveThemeToDatabase:
  "trace (saveThemeToDatabase be p w) =
     trace w @ SaveCall p #
       (case getUser be of
          Rejects \<Rightarrow> [ConsoleError]
        | Resolves None \<Rightarrow> []
        | Resolves (Some uid) \<Rightarrow>
            RemoteUpdate uid p #
              (case update_theme_settings be uid of
                 Rejects \<Rightarrow> [ConsoleError]
               | Resolves None \<Rightarrow> []
               | Resolves (Some e) \<Rightarrow> [ConsoleError, Toast]))"
  by (simp add: saveThemeToDatabase_def log_def Let_def split: reply.splits option.splits)

lemma save_save_calls: "save_calls (saveThemeToDatabase be p w) = save_calls w @ [p]"
  by (simp add: saveThemeToDatabase_def save_calls_def log_def Let_def
           split: reply.splits option.splits)

lemma save_remote_updates:
  "remote_updates (saveThemeToDatabase be p w) =
     remote_updates w @ (case getUser be of Resolves (Some uid) \<Rightarrow> [(uid, p)] | _ \<Rightarrow> [])"
  by (simp add: saveThemeToDatabase_def remote_updates_def log_def Let_def
           split: reply.splits option.splits)

lemma save_calls_setItem [simp]: "save_calls (setItem k v w) = save_calls w"
  by (simp add: save_calls_def)

lemma remote_updates_setItem [simp]: "remote_updates (setItem k v w) = remote_updates w"
  by (simp add: remote_updates_def)

lemma save_calls_theme_update [simp]: "save_calls (w\<lparr>theme := t\<rparr>) = save_calls w"
  by (simp add: save_calls_def)

lemma remote_updates_theme_update [simp]: "remote_updates (w\<lparr>theme := t\<rparr>) = remote_updates w"
  by (simp add: remote_updates_def)

lemma contrast_black: "contrast ''#000000'' = ''text-white''"
  by code_simp

lemma contrast_white: "contrast ''#FFFFFF'' = ''text-gray-800''"
  by code_simp

lemmas setter_defs =
  setHeaderColor_def setAvatarColor_def setTextColor_def setMainColor_def setButtonColor_def
  setCaseStatusColor_def setTaskStatusColor_def setCaseStatusTextColor_def
  setCurrentStatusView_def

lemma perform_trace_uninitialized:
  "\<not> initialized (theme w) \<Longrightarrow> trace (perform be c w) = trace w"
  by (cases c) (simp_all add: setter_defs Let_def)

lemma status_key_inj: "status_key k = status_key k' \<longleftrightarrow> k = k'"
  by (cases k; cases k') simp_all

lemma current_settings_view [simp]:
  "current_settings (t\<lparr>currentStatusView := x\<rparr>) = current_settings t"
  by (simp add: current_settings_def)

lemma perform_view_indep:
  "trace (perform be c (w\<lparr>theme := (theme w)\<lparr>currentStatusView := x\<rparr>\<rparr>)) = trace (perform be c w)"
proof (cases c)
  case (SetHeaderColor x1)
  then show ?thesis by (simp add: setHeaderColor_def Let_def trace_saveThemeToDatabase)
next
  case (SetAvatarColor x2)
  then show ?thesis by (simp add: setAvatarColor_def Let_def trace_saveThemeToDatabase)
next
  case (SetTextColor x3)
  then show ?thesis by (simp add: setTextColor_def Let_def trace_saveThemeToDatabase)
next
  case (SetMainColor x4)
  then show ?thesis by (simp add: setMainColor_def Let_def trace_saveThemeToDatabase)
next
  case (SetButtonColor x5)
  then show ?thesis by (simp add: setButtonColor_def Let_def trace_saveThemeToDatabase)
next
  case (SetCaseStatusColor x61 x62)
  then show ?thesis by (simp add: setCaseStatusColor_def Let_def trace_saveThemeToDatabase)
next
  case (SetTaskStatusColor x71 x72)
  then show ?thesis by (simp add: setTaskStatusColor_def Let_def trace_saveThemeToDatabase)
next
  case (SetCaseStatusTextColor x81 x82)
  then show ?thesis by (simp add: setCaseStatusTextColor_def Let_def trace_saveThemeToDatabase)
next
  case (SetCurrentStatusView x9)
  then show ?thesis by (simp add: setCurrentStatusView_def)
qed

lemma view_name_nonempty: "view_name v \<noteq> []"
  by (cases v) simp_all

text \<open>
  C4. \<open>setHeaderColor c\<close> sets \<open>headerColor\<close> to \<open>c\<close> and \<open>textColor\<close> by the contrast
  rule: \<^verbatim>\<open>text-gray-800\<close> when \<open>isLightColor c\<close>, \<^verbatim>\<open>text-white\<close> otherwise; black
  gives \<^verbatim>\<open>text-white\<close> and white gives \<^verbatim>\<open>text-gray-800\<close>. When \<open>initialized\<close>, it
  calls \<open>saveThemeToDatabase\<close> once, with a payload that holds both new values beside the
  six other fields of the state, and that payload is the one update request sent when
  there is a session.
\<close>

theorem setHeaderColor_contrast:
  "headerColor (theme (setHeaderColor be c w)) = c
   \<and> textColor (theme (setHeaderColor be c w)) = contrast c
   \<and> contrast c = (if isLightColor c then ''text-gray-800'' else ''text-white'')
   \<and> textColor (theme (setHeaderColor be ''#000000'' w)) = ''text-white''
   \<and> textColor (theme (setHeaderColor be ''#FFFFFF'' w)) = ''text-gray-800''
   \<and> (initialized (theme w) \<longrightarrow>
        save_calls (setHeaderColor be c w)
          = save_calls w @ [(current_settings (theme w))
               \<lparr>headerColor_opt := Some c, textColor_opt := Some (contrast c)\<rparr>]
        \<and> remote_updates (setHeaderColor be c w)
          = remote_updates w @
            (case getUser be of
               Resolves (Some uid) \<Rightarrow>
                 [(uid, (current_settings (theme w))
                    \<lparr>headerColor_opt := Some c, textColor_opt := Some (contrast c)\<rparr>)]
             | _ \<Rightarrow> []))"
  by (simp add: setHeaderColor_def Let_def save_save_calls save_remote_updates
        contrast_black contrast_white) (simp add: contrast_def)


text \<open>
  C4, an instance: after a finished load, with a session, \<open>setHeaderColor\<close> of black
  sends one update whose payload has the new header colour and \<^verbatim>\<open>text-white\<close>.
\<close>

theorem setHeaderColor_contrast_witness:
  "initialized (theme ready)
   \<and> save_calls (setHeaderColor (signed_in None) ''#000000'' ready)
       = save_calls ready @ [(current_settings (theme ready))
            \<lparr>headerColor_opt := Some ''#000000'', textColor_opt := Some ''text-white''\<rparr>]
   \<and> remote_updates (setHeaderColor (signed_in None) ''#000000'' ready)
       = remote_updates ready @ [(''user-1'', (current_settings (theme ready))
            \<lparr>headerColor_opt := Some ''#000000'', textColor_opt := Some ''text-white''\<rparr>)]"
proof -
  have i: "initialized (theme ready)" by code_simp
  have g: "getUser (signed_in None) = Resolves (Some ''user-1'')" by (simp add: signed_in_def)
  show ?thesis
    using setHeaderColor_contrast [where be = "signed_in None" and c = "''#000000''" and w = ready]
      i g contrast_black
    by simp
qed

text \<open>
  C5. While \<open>initialized\<close> is false a setter call leaves the trace as it was: no call of
  \<open>saveThemeToDatabase\<close>, no update request. The state and the local cache are updated
  all the same: each colour setter stores its argument in its field and under its key,
  each status setter stores the colour under the status key of its map and the JSON text
  of the new map under the key of the map.
\<close>

theorem setters_before_initialized:
  "\<not> initialized (theme w) \<Longrightarrow>
     trace (perform be c w) = trace w
     \<and> save_calls (perform be c w) = save_calls w
     \<and> remote_updates (perform be c w) = remote_updates w
     \<and> headerColor (theme (setHeaderColor be x w)) = x
     \<and> localStorage (setHeaderColor be x w) ''praxis-header-color'' = Some x
     \<and> avatarColor (theme (setAvatarColor be x w)) = x
     \<and> localStorage (setAvatarColor be x w) ''praxis-avatar-color'' = Some x
     \<and> textColor (theme (setTextColor be x w)) = x
     \<and> localStorage (setTextColor be x w) ''praxis-text-color'' = Some x
     \<and> mainColor (theme (setMainColor be x w)) = x
     \<and> localStorage (setMainColor be x w) ''praxis-main-color'' = Some x
     \<and> buttonColor (theme (setButtonColor be x w)) = x
     \<and> localStorage (setButtonColor be x w) ''praxis-button-color'' = Some x
     \<and> get_prop (caseStatusColors (theme (setCaseStatusColor be k x w))) (status_key k)
         = Some (JStr x)
     \<and> localStorage (setCaseStatusColor be k x w) ''praxis-case-status-colors''
         = Some (stringify (caseStatusColors (theme (setCaseStatusColor be k x w))))
     \<and> get_prop (taskStatusColors (theme (setTaskStatusColor be k x w))) (status_key k)
         = Some (JStr x)
     \<and> localStorage (setTaskStatusColor be k x w) ''praxis-task-status-colors''
         = Some (stringify (taskStatusColors (theme (setTaskStatusColor be k x w))))
     \<and> get_prop (caseStatusTextColors (theme (setCaseStatusTextColor be k x w))) (status_key k)
         = Some (JStr x)
     \<and> localStorage (setCaseStatusTextColor be k x w) ''praxis-case-status-text-colors''
         = Some (stringify (caseStatusTextColors (theme (setCaseStatusTextColor be k x w))))"
  by (simp add: perform_trace_uninitialized save_calls_def remote_updates_def)
     (simp add: setter_defs Let_def get_prop_spread)


text \<open>
  C5, an instance: at mount, before the load, with a session, \<open>setMainColor\<close> sends
  nothing, sets the field and writes the cache.
\<close>

theorem setters_before_initialized_witness:
  "\<not> initialized (theme (mount Map.empty))
   \<and> trace (perform (signed_in None) (SetMainColor ''#112233'') (mount Map.empty)) = []
   \<and> remote_updates (perform (signed_in None) (SetMainColor ''#112233'') (mount Map.empty)) = []
   \<and> mainColor (theme (setMainColor (signed_in None) ''#112233'' (mount Map.empty))) = ''#112233''
   \<and> localStorage (setMainColor (signed_in None) ''#112233'' (mount Map.empty))
        ''praxis-main-color'' = Some ''#112233''"
proof -
  have i: "\<not> initialized (theme (mount Map.empty))"
    by (simp add: mount_def initial_theme_def)
  have t: "trace (mount Map.empty) = []" "remote_updates (mount Map.empty) = []"
    by (simp_all add: mount_def remote_updates_def)
  show ?thesis
    using setters_before_initialized [OF i, where be = "signed_in None"
        and c = "SetMainColor ''#112233''" and x = "''#112233''"] i t
    by simp
qed

text \<open>
  C6. For each of the four status keys \<open>k\<close> and every colour \<open>c\<close>,
  \<open>setCaseStatusColor k c\<close> sets entry \<open>k\<close> of \<open>caseStatusColors\<close> to \<open>c\<close> and changes
  nothing else: every other entry of \<open>caseStatusColors\<close>, the three other status keys
  among them, \<open>taskStatusColors\<close>, and every other field of the state are as before.
\<close>

theorem setCaseStatusColor_frame:
  "get_prop (caseStatusColors (theme (setCaseStatusColor be k c w))) (status_key k) = Some (JStr c)
   \<and> (\<forall>k'. k' \<noteq> status_key k \<longrightarrow>
         get_prop (caseStatusColors (theme (setCaseStatusColor be k c w))) k'
         = get_prop (caseStatusColors (theme w)) k')
   \<and> (\<forall>j. j \<noteq> k \<longrightarrow>
         get_prop (caseStatusColors (theme (setCaseStatusColor be k c w))) (status_key j)
         = get_prop (caseStatusColors (theme w)) (status_key j))
   \<and> taskStatusColors (theme (setCaseStatusColor be k c w)) = taskStatusColors (theme w)
   \<and> theme (setCaseStatusColor be k c w)
       = (theme w)\<lparr>caseStatusColors := caseStatusColors (theme (setCaseStatusColor be k c w))\<rparr>"
  by (simp add: setCaseStatusColor_def Let_def get_prop_spread status_key_inj)


text \<open>
  C6, an instance: setting the colour of \<^verbatim>\<open>completed\<close> leaves \<^verbatim>\<open>delayed\<close> at its
  default.
\<close>

theorem setCaseStatusColor_frame_witness:
  "''delayed'' \<noteq> status_key completed \<and> delayed \<noteq> completed
   \<and> get_prop (caseStatusColors (theme (setCaseStatusColor signed_out completed ''#000000'' ready)))
        ''completed'' = Some (JStr ''#000000'')
   \<and> get_prop (caseStatusColors (theme (setCaseStatusColor signed_out completed ''#000000'' ready)))
        ''delayed'' = Some (JStr ''#FFCCCB'')"
proof -
  have a: "''delayed'' \<noteq> status_key completed" "delayed \<noteq> completed" by simp_all
  have b: "get_prop (caseStatusColors (theme ready)) ''delayed'' = Some (JStr ''#FFCCCB'')"
    by code_simp
  show ?thesis
    using setCaseStatusColor_frame [where be = signed_out and k = completed and c = "''#000000''"
        and w = ready] a b
    by simp
qed

section \<open>The initial load\<close>

text \<open>
  C1. The claim: whatever the initial load meets (no session, a fetch error, an empty
  payload, a cached JSON value that does not parse), \<open>initialized\<close> becomes true
  once, after one load attempt, and the load does not crash. The code at a cache whose
  case-status entry is the text \<^verbatim>\<open>{\<close>, with no session: \<open>JSON.parse\<close> throws inside
  \<open>loadFromLocalStorage\<close>, the \<open>catch\<close> calls \<open>loadFromLocalStorage\<close> again, which
  throws again, now out of \<open>loadThemeSettings\<close>; \<open>setInitialized(true)\<close> is never
  reached and the local load has run twice.
\<close>

theorem loadThemeSettings_malformed_cache:
  "threw (loadThemeSettings signed_out (mount [''praxis-case-status-colors'' \<mapsto> ''{'']))
   \<and> \<not> initialized (theme (world_of
         (loadThemeSettings signed_out (mount [''praxis-case-status-colors'' \<mapsto> ''{'']))))
   \<and> trace (world_of
         (loadThemeSettings signed_out (mount [''praxis-case-status-colors'' \<mapsto> ''{''])))
       = [LocalLoad, ConsoleError, LocalLoad]"
  by code_simp

lemma local_load_returns:
  assumes "cache_parses (localStorage w)"
  obtains w' where "loadFromLocalStorage w = Returned w'" "trace w' = trace w @ [LocalLoad]"
    "localStorage w' = localStorage w" "initialized (theme w') = initialized (theme w)"
  using assms
  by (auto simp: cache_parses_def loadFromLocalStorage_def Let_def log_def)


text \<open>
  Short of that, the load does what C1 says: when the three cached status maps parse
  (or are absent or empty), whatever the backend answers, \<open>loadThemeSettings\<close> returns,
  \<open>initialized\<close> is true, \<open>setInitialized(true)\<close> has been called once and
  \<open>loadFromLocalStorage\<close> at most once.
\<close>

lemma loadThemeSettings_completes:
  assumes "cache_parses (localStorage w)"
  shows "\<not> threw (loadThemeSettings be w)
         \<and> initialized (theme (world_of (loadThemeSettings be w)))
         \<and> length (filter (\<lambda>e. e = SetInitialized) (trace (world_of (loadThemeSettings be w))))
             = Suc (length (filter (\<lambda>e. e = SetInitialized) (trace w)))
         \<and> length (filter (\<lambda>e. e = LocalLoad) (trace (world_of (loadThemeSettings be w))))
             \<le> Suc (length (filter (\<lambda>e. e = LocalLoad) (trace w)))"
proof -
  obtain w1 where w1: "loadFromLocalStorage w = Returned w1" "trace w1 = trace w @ [LocalLoad]"
    "localStorage w1 = localStorage w"
    using assms by (rule local_load_returns)
  have "cache_parses (localStorage (log ConsoleError w))" using assms by simp
  then obtain w2 where w2: "loadFromLocalStorage (log ConsoleError w) = Returned w2"
    "trace w2 = trace (log ConsoleError w) @ [LocalLoad]"
    by (rule local_load_returns)
  show ?thesis
    by (auto simp: loadThemeSettings_def try_block_def w1 w2 adopt_def
             split: reply.splits option.splits)
qed

lemma load_adopt:
  assumes "getUser be = Resolves (Some uid)" "select_theme_settings be uid = Resolves resp"
    "error resp = None \<or> error resp = Some ''PGRST116''" "data resp = Some (Some p)"
  shows "loadThemeSettings be w = Returned (setInitialized (adopt p w))"
  using assms by (auto simp: loadThemeSettings_def try_block_def)


text \<open>
  C7, as the code has it. When the fetch succeeds with a payload, the load returns and
  each of the eight remote fields of the state is the payload's field when that is
  present and truthy (a non-empty string; a map that is not \<open>null\<close>, \<open>false\<close>, zero or
  the empty string), and its hard-coded default when the field is absent or falsy. A
  status map that is present is adopted whole; \<open>currentStatusView\<close> and the local cache
  are not touched.
\<close>

theorem loadThemeSettings_partial_payload:
  "getUser be = Resolves (Some uid) \<and> select_theme_settings be uid = Resolves resp
   \<and> (error resp = None \<or> error resp = Some ''PGRST116'') \<and> data resp = Some (Some p)
   \<longrightarrow>
     \<not> threw (loadThemeSettings be w)
     \<and> theme (world_of (loadThemeSettings be w)) =
         (theme w)
           \<lparr>headerColor := str_or (headerColor_opt p) ''#8B9474'',
            avatarColor := str_or (avatarColor_opt p) ''#F5A65B'',
            textColor := str_or (textColor_opt p) ''text-white'',
            mainColor := str_or (mainColor_opt p) ''#F3F4F6'',
            buttonColor := str_or (buttonColor_opt p) ''#8B9474'',
            caseStatusColors := json_or (caseStatusColors_opt p) DEFAULT_STATUS_COLORS,
            taskStatusColors := json_or (taskStatusColors_opt p) DEFAULT_STATUS_COLORS,
            caseStatusTextColors := json_or (caseStatusTextColors_opt p) DEFAULT_TEXT_COLORS,
            initialized := True\<rparr>
     \<and> (s \<noteq> [] \<longrightarrow> str_or (Some s) d = s)
     \<and> str_or (Some []) d = d \<and> str_or None d = d
     \<and> (truthy m \<longrightarrow> json_or (Some m) d' = m)
     \<and> (\<not> truthy m \<longrightarrow> json_or (Some m) d' = d') \<and> json_or None d' = d'"
proof -
  have 1: "(s \<noteq> [] \<longrightarrow> str_or (Some s) d = s) \<and> str_or (Some []) d = d \<and> str_or None d = d"
    by (simp add: str_or_def)
  have 2: "(truthy m \<longrightarrow> json_or (Some m) d' = m)
           \<and> (\<not> truthy m \<longrightarrow> json_or (Some m) d' = d') \<and> json_or None d' = d'"
    by (simp add: json_or_def)
  show ?thesis using 1 2 by (auto simp: load_adopt adopt_def)
qed


text \<open>
  C7, an instance: a payload with only a header colour gives that colour and the
  defaults for the rest.
\<close>

theorem loadThemeSettings_partial_payload_witness:
  "(let be = signed_in (Some \<lparr>headerColor_opt = Some ''#112233'', avatarColor_opt = None,
               textColor_opt = None, mainColor_opt = None, buttonColor_opt = None,
               caseStatusColors_opt = None, taskStatusColors_opt = None,
               caseStatusTextColors_opt = None\<rparr>);
        t = theme (world_of (loadThemeSettings be (mount Map.empty)))
    in getUser be = Resolves (Some ''user-1'')
       \<and> headerColor t = ''#112233'' \<and> avatarColor t = ''#F5A65B''
       \<and> textColor t = ''text-white'' \<and> mainColor t = ''#F3F4F6''
       \<and> buttonColor t = ''#8B9474'' \<and> caseStatusColors t = DEFAULT_STATUS_COLORS
       \<and> taskStatusColors t = DEFAULT_STATUS_COLORS
       \<and> caseStatusTextColors t = DEFAULT_TEXT_COLORS \<and> initialized t)"
proof -
  define p where "p = \<lparr>headerColor_opt = Some ''#112233'', avatarColor_opt = None,
               textColor_opt = None, mainColor_opt = None, buttonColor_opt = None,
               caseStatusColors_opt = None, taskStatusColors_opt = None,
               caseStatusTextColors_opt = None\<rparr>"
  have h: "getUser (signed_in (Some p)) = Resolves (Some ''user-1'')"
    "select_theme_settings (signed_in (Some p)) ''user-1''
       = Resolves \<lparr>data = Some (Some p), error = None\<rparr>"
    by (simp_all add: signed_in_def)
  have "theme (world_of (loadThemeSettings (signed_in (Some p)) (mount Map.empty))) =
          (theme (mount Map.empty))
             \<lparr>headerColor := str_or (headerColor_opt p) ''#8B9474'',
              avatarColor := str_or (avatarColor_opt p) ''#F5A65B'',
              textColor := str_or (textColor_opt p) ''text-white'',
              mainColor := str_or (mainColor_opt p) ''#F3F4F6'',
              buttonColor := str_or (buttonColor_opt p) ''#8B9474'',
              caseStatusColors := json_or (caseStatusColors_opt p) DEFAULT_STATUS_COLORS,
              taskStatusColors := json_or (taskStatusColors_opt p) DEFAULT_STATUS_COLORS,
              caseStatusTextColors := json_or (caseStatusTextColors_opt p) DEFAULT_TEXT_COLORS,
              initialized := True\<rparr>"
    using loadThemeSettings_partial_payload [where be = "signed_in (Some p)"
        and uid = "''user-1''" and resp = "\<lparr>data = Some (Some p), error = None\<rparr>" and p = p
        and w = "mount Map.empty"] h
    by simp
  then show ?thesis
    using h(1) by (simp add: p_def [symmetric] Let_def) (simp add: p_def str_or_def json_or_def)
qed

text \<open>
  C7 as stated fails where a field is present and falsy, and where a present map is
  itself partial. A payload whose header colour is the empty string does not have it
  adopted: the state gets the default. A payload whose case-status map has one entry is
  adopted as it is: its \<^verbatim>\<open>delayed\<close> entry is left undefined, not defaulted.
\<close>

theorem loadThemeSettings_payload_counterexample:
  "headerColor_opt falsy_partial_payload = Some []
   \<and> headerColor (theme (world_of
         (loadThemeSettings (signed_in (Some falsy_partial_payload)) (mount Map.empty))))
       = ''#8B9474''
   \<and> get_prop (caseStatusColors (theme (world_of
         (loadThemeSettings (signed_in (Some falsy_partial_payload)) (mount Map.empty)))))
         ''completed'' = Some (JStr ''#000000'')
   \<and> get_prop (caseStatusColors (theme (world_of
         (loadThemeSettings (signed_in (Some falsy_partial_payload)) (mount Map.empty)))))
         ''delayed'' = None"
  by code_simp

section \<open>The keys of the status maps\<close>

lemma default_keys:
  "has_fixed_keys DEFAULT_STATUS_COLORS" "has_fixed_keys DEFAULT_TEXT_COLORS"
  by (auto simp: has_fixed_keys_def own_keys_def DEFAULT_STATUS_COLORS_def
        DEFAULT_TEXT_COLORS_def fixed_keys_def)

lemma status_key_fixed: "status_key k \<in> fixed_keys"
  by (cases k) (simp_all add: fixed_keys_def)

lemma spread_fixed_keys:
  "has_fixed_keys m \<Longrightarrow> has_fixed_keys (spread_with m (status_key k) x)"
  using status_key_fixed [of k] by (auto simp: has_fixed_keys_def own_keys_spread)

lemma perform_maps_ok: "maps_ok (theme w) \<Longrightarrow> maps_ok (theme (perform be c w))"
  by (cases c) (simp_all add: setter_defs Let_def maps_ok_def spread_fixed_keys)

lemma adopt_maps_ok: "settings_maps_ok p \<Longrightarrow> maps_ok (theme (adopt p w))"
  by (simp add: adopt_def maps_ok_def settings_maps_ok_def)

lemma stored_map_ok_text:
  "stored_map_ok stored \<Longrightarrow> parse_stored stored DEFAULT_TEXT_COLORS = Some m \<Longrightarrow> has_fixed_keys m"
  by (auto simp: stored_map_ok_def parse_stored_def default_keys split: option.splits if_splits)

lemma stored_map_ok_colors:
  "stored_map_ok stored \<Longrightarrow> parse_stored stored DEFAULT_STATUS_COLORS = Some m \<Longrightarrow> has_fixed_keys m"
  by (auto simp: stored_map_ok_def)

lemma local_load_maps_ok:
  assumes "maps_ok (theme w)" "cache_maps_ok (localStorage w)"
  shows "maps_ok (theme (world_of (loadFromLocalStorage w)))"
  using assms
  by (auto simp: loadFromLocalStorage_def Let_def log_def maps_ok_def cache_maps_ok_def
           split: option.splits dest: stored_map_ok_text stored_map_ok_colors)

lemma local_load_storage [simp]:
  "localStorage (world_of (loadFromLocalStorage w)) = localStorage w"
  by (simp add: loadFromLocalStorage_def Let_def log_def split: option.splits)

lemma loadThemeSettings_maps_ok:
  assumes m: "maps_ok (theme w)" and c: "cache_maps_ok (localStorage w)"
    and p: "\<forall>uid resp p. getUser be = Resolves (Some uid)
              \<and> select_theme_settings be uid = Resolves resp \<and> data resp = Some (Some p)
              \<longrightarrow> settings_maps_ok p"
  shows "maps_ok (theme (world_of (loadThemeSettings be w)))"
proof -
  have k: "maps_ok (theme (world_of (loadFromLocalStorage v)))
           \<and> cache_maps_ok (localStorage (world_of (loadFromLocalStorage v)))"
    if "maps_ok (theme v)" "cache_maps_ok (localStorage v)" for v
    using that local_load_maps_ok [of v] by simp
  have init: "maps_ok (theme (setInitialized v))" if "maps_ok (theme v)" for v
    using that by (simp add: maps_ok_def)
  have t: "maps_ok (theme v) \<and> cache_maps_ok (localStorage v)"
    if "try_block be w = Return v \<or> try_block be w = FallThrough v \<or> try_block be w = Throw v"
    for v
  proof (cases "getUser be")
    case Rejects
    then show ?thesis using that m c by (auto simp: try_block_def)
  next
    case (Resolves u)
    show ?thesis
    proof (cases u)
      case None
      then show ?thesis
        using that Resolves k [OF m c] init
        by (cases "loadFromLocalStorage w") (auto simp: try_block_def maps_ok_def)
    next
      case (Some uid)
      show ?thesis
      proof (cases "select_theme_settings be uid")
        case Rejects
        then show ?thesis using that m c Resolves Some by (auto simp: try_block_def)
      next
        case sel: (Resolves resp)
        have kl: "maps_ok (theme (world_of (loadFromLocalStorage (log ConsoleError w))))
            \<and> cache_maps_ok (localStorage (world_of (loadFromLocalStorage (log ConsoleError w))))"
          using k [of "log ConsoleError w"] m c by simp
        show ?thesis
        proof (cases "error resp \<noteq> None \<and> error resp \<noteq> Some ''PGRST116''")
          case True
          then show ?thesis
            using that Resolves Some sel kl
            by (cases "loadFromLocalStorage (log ConsoleError w)")
               (auto simp: try_block_def maps_ok_def)
        next
          case False
          show ?thesis
          proof (cases "data resp")
            case None
            then show ?thesis
              using that Resolves Some sel False k [OF m c]
              by (cases "loadFromLocalStorage w") (auto simp: try_block_def)
          next
            case d: (Some row)
            show ?thesis
            proof (cases row)
              case None
              then show ?thesis
                using that Resolves Some sel False d k [OF m c]
                by (cases "loadFromLocalStorage w") (auto simp: try_block_def)
            next
              case (Some settings)
              have "settings_maps_ok settings"
                using p Resolves \<open>u = Some uid\<close> sel d Some by blast
              then have "maps_ok (theme (adopt settings w))" by (rule adopt_maps_ok)
              moreover have "localStorage (adopt settings w) = localStorage w"
                by (simp add: adopt_def)
              ultimately show ?thesis
                using that Resolves \<open>u = Some uid\<close> sel False d Some c
                by (auto simp: try_block_def)
            qed
          qed
        qed
      qed
    qed
  qed
  show ?thesis
  proof (cases "try_block be w")
    case (Return v)
    then show ?thesis using t [of v] by (simp add: loadThemeSettings_def)
  next
    case (FallThrough v)
    then show ?thesis using t [of v] init by (simp add: loadThemeSettings_def)
  next
    case (Throw v)
    have "maps_ok (theme (log ConsoleError v))" "cache_maps_ok (localStorage (log ConsoleError v))"
      using t [of v] Throw by simp_all
    then have "maps_ok (theme (world_of (loadFromLocalStorage (log ConsoleError v))))"
      using k by blast
    then show ?thesis
      using Throw init
      by (cases "loadFromLocalStorage (log ConsoleError v)")
         (auto simp: loadThemeSettings_def maps_ok_def)
  qed
qed

lemma initial_maps_ok: "maps_ok initial_theme"
  by (simp add: maps_ok_def initial_theme_def default_keys)


text \<open>
  C9, as the code has it. The three status maps have exactly the four fixed keys at
  mount; every setter call keeps that; the initial load keeps it when every map it
  adopts has exactly the four keys, be it from the remote payload or parsed from the
  local cache. Nothing validates an adopted map.
\<close>

theorem status_maps_keys:
  "maps_ok initial_theme
   \<and> (maps_ok (theme w) \<longrightarrow> maps_ok (theme (perform be c w)))
   \<and> (maps_ok (theme w) \<and> cache_maps_ok (localStorage w)
       \<and> (\<forall>uid resp p. getUser be = Resolves (Some uid)
              \<and> select_theme_settings be uid = Resolves resp \<and> data resp = Some (Some p)
              \<longrightarrow> settings_maps_ok p)
       \<longrightarrow> maps_ok (theme (world_of (loadThemeSettings be w))))"
  using initial_maps_ok perform_maps_ok loadThemeSettings_maps_ok by blast


text \<open>
  C9, an instance: at mount, after a status setter, and after a load that adopts a
  payload whose case-status map has the four keys.
\<close>

theorem status_maps_keys_witness:
  "maps_ok (theme (mount Map.empty))
   \<and> maps_ok (theme (perform signed_out (SetCaseStatusColor delayed ''#123456'') (mount Map.empty)))
   \<and> cache_maps_ok (localStorage (mount Map.empty))
   \<and> maps_ok (theme (world_of (loadThemeSettings
        (signed_in (Some \<lparr>headerColor_opt = None, avatarColor_opt = None,
               textColor_opt = None, mainColor_opt = None, buttonColor_opt = None,
               caseStatusColors_opt = Some DEFAULT_TEXT_COLORS, taskStatusColors_opt = None,
               caseStatusTextColors_opt = None\<rparr>))
        (mount Map.empty))))"
proof -
  define p where "p = \<lparr>headerColor_opt = None, avatarColor_opt = None,
               textColor_opt = None, mainColor_opt = None, buttonColor_opt = None,
               caseStatusColors_opt = Some DEFAULT_TEXT_COLORS, taskStatusColors_opt = None,
               caseStatusTextColors_opt = None\<rparr>"
  have m: "maps_ok (theme (mount Map.empty))"
    using initial_maps_ok by (simp add: mount_def)
  have c: "cache_maps_ok (localStorage (mount Map.empty))"
    by (simp add: cache_maps_ok_def stored_map_ok_def parse_stored_def mount_def default_keys)
  have t: "truthy DEFAULT_TEXT_COLORS" by (simp add: truthy_def DEFAULT_TEXT_COLORS_def)
  have s: "settings_maps_ok p"
    by (simp add: settings_maps_ok_def p_def json_or_def default_keys t)
  have h: "\<forall>uid resp q. getUser (signed_in (Some p)) = Resolves (Some uid)
              \<and> select_theme_settings (signed_in (Some p)) uid = Resolves resp
              \<and> data resp = Some (Some q)
              \<longrightarrow> settings_maps_ok q"
    using s by (auto simp: signed_in_def)
  show ?thesis
    using status_maps_keys [where w = "mount Map.empty" and be = signed_out
        and c = "SetCaseStatusColor delayed ''#123456''"]
      status_maps_keys [where w = "mount Map.empty" and be = "signed_in (Some p)"] m c h
    unfolding p_def by blast
qed

text \<open>
  C9 as stated fails at the load: with no session and a cache whose case-status entry
  is the JSON text of the empty object, \<open>caseStatusColors\<close> has no key at all after
  \<open>initialize\<close>.
\<close>

theorem status_maps_keys_counterexample:
  "own_keys (caseStatusColors (theme (world_of
       (loadThemeSettings signed_out (mount [''praxis-case-status-colors'' \<mapsto> ''{}''])))))
     = []
   \<and> \<not> maps_ok (theme (world_of
       (loadThemeSettings signed_out (mount [''praxis-case-status-colors'' \<mapsto> ''{}'']))))"
  by code_simp

section \<open>Round trip through the local cache\<close>

lemma spread_status_object:
  "spread_with (status_object a b c d) (status_key k) (JStr x) =
     (case k of
        completed \<Rightarrow> status_object x b c d
      | in_progress \<Rightarrow> status_object a x c d
      | delayed \<Rightarrow> status_object a b x d
      | analysis \<Rightarrow> status_object a b c x)"
  by (cases k) (simp_all add: spread_with_def status_object_def obj_put_def)

lemma is_status_object_spread:
  "is_status_object m \<Longrightarrow> is_status_object (spread_with m (status_key k) (JStr x))"
proof -
  assume "is_status_object m"
  then obtain a b c d where m: "m = status_object a b c d"
    by (auto simp: is_status_object_def)
  show ?thesis
    unfolding m spread_status_object is_status_object_def by (cases k) auto
qed

lemma is_status_object_defaults:
  "is_status_object DEFAULT_STATUS_COLORS" "is_status_object DEFAULT_TEXT_COLORS"
  unfolding is_status_object_def DEFAULT_STATUS_COLORS_def DEFAULT_TEXT_COLORS_def status_object_def
  by blast+

lemma parse_stored_stringify:
  "is_status_object m \<Longrightarrow> parse_stored (Some (stringify m)) d = Some m"
proof -
  assume "is_status_object m"
  then obtain a b c e where m: "m = status_object a b c e" by (auto simp: is_status_object_def)
  have "stringify m \<noteq> []" by (simp add: m status_object_def)
  then show ?thesis using parse_status_object [of a b c e] by (simp add: parse_stored_def m)
qed

lemma map_synced_put:
  "is_status_object m \<Longrightarrow>
   map_synced (Some (stringify (spread_with m (status_key k) (JStr x)))) d
     (spread_with m (status_key k) (JStr x))"
  by (simp add: map_synced_def is_status_object_spread)

lemma scalar_synced_Some: "x \<noteq> [] \<Longrightarrow> scalar_synced (Some x) d x"
  by (simp add: scalar_synced_def)

lemma perform_in_sync:
  assumes "in_sync w" "nonempty_colour c"
  shows "in_sync (perform be c w)"
proof (cases c)
  case (SetHeaderColor x)
  then show ?thesis using assms
    by (simp add: in_sync_def Let_def setHeaderColor_def scalar_synced_Some)
next
  case (SetAvatarColor x)
  then show ?thesis using assms
    by (simp add: in_sync_def Let_def setAvatarColor_def scalar_synced_Some)
next
  case (SetTextColor x)
  then show ?thesis using assms
    by (simp add: in_sync_def Let_def setTextColor_def)
next
  case (SetMainColor x)
  then show ?thesis using assms
    by (simp add: in_sync_def Let_def setMainColor_def scalar_synced_Some)
next
  case (SetButtonColor x)
  then show ?thesis using assms
    by (simp add: in_sync_def Let_def setButtonColor_def scalar_synced_Some)
next
  case (SetCaseStatusColor k x)
  have "is_status_object (caseStatusColors (theme w))"
    using assms(1) by (simp add: in_sync_def Let_def map_synced_def)
  then show ?thesis using assms SetCaseStatusColor
    by (simp add: in_sync_def Let_def setCaseStatusColor_def map_synced_put)
next
  case (SetTaskStatusColor k x)
  have "is_status_object (taskStatusColors (theme w))"
    using assms(1) by (simp add: in_sync_def Let_def map_synced_def)
  then show ?thesis using assms SetTaskStatusColor
    by (simp add: in_sync_def Let_def setTaskStatusColor_def map_synced_put)
next
  case (SetCaseStatusTextColor k x)
  have "is_status_object (caseStatusTextColors (theme w))"
    using assms(1) by (simp add: in_sync_def Let_def map_synced_def)
  then show ?thesis using assms SetCaseStatusTextColor
    by (simp add: in_sync_def Let_def setCaseStatusTextColor_def map_synced_put)
next
  case (SetCurrentStatusView v)
  then show ?thesis using assms
    by (simp add: in_sync_def Let_def setCurrentStatusView_def scalar_synced_Some
          view_name_nonempty)
qed

lemma run_in_sync:
  "in_sync w \<Longrightarrow> (\<forall>(be, c) \<in> set calls. nonempty_colour c) \<Longrightarrow> in_sync (run calls w)"
  by (induction calls arbitrary: w) (auto simp: perform_in_sync)

lemma scalar_synced_load: "scalar_synced stored d v \<Longrightarrow> str_or stored d = v"
  by (auto simp: scalar_synced_def str_or_def split: option.splits)

lemma map_synced_load: "map_synced stored d m \<Longrightarrow> parse_stored stored d = Some m"
  by (cases stored) (auto simp: map_synced_def parse_stored_stringify, simp add: parse_stored_def)

lemma load_in_sync:
  assumes "in_sync w"
  shows "loadFromLocalStorage (mount (localStorage w)) =
           Returned \<lparr>theme = (theme w)\<lparr>textColor := contrast (headerColor (theme w)),
                                      initialized := False\<rparr>,
                     localStorage = localStorage w, trace = [LocalLoad]\<rparr>"
proof -
  let ?ls = "localStorage w" and ?t = "theme w"
  have s: "str_or (?ls ''praxis-header-color'') ''#8B9474'' = headerColor ?t"
    "str_or (?ls ''praxis-avatar-color'') ''#F5A65B'' = avatarColor ?t"
    "str_or (?ls ''praxis-main-color'') ''#F3F4F6'' = mainColor ?t"
    "str_or (?ls ''praxis-button-color'') ''#8B9474'' = buttonColor ?t"
    "str_or (?ls ''praxis-status-view'') ''cases'' = currentStatusView ?t"
    using assms by (simp_all add: in_sync_def Let_def scalar_synced_load)
  have p: "parse_stored (?ls ''praxis-case-status-colors'') DEFAULT_STATUS_COLORS
             = Some (caseStatusColors ?t)"
    "parse_stored (?ls ''praxis-task-status-colors'') DEFAULT_STATUS_COLORS
             = Some (taskStatusColors ?t)"
    "parse_stored (?ls ''praxis-case-status-text-colors'') DEFAULT_TEXT_COLORS
             = Some (caseStatusTextColors ?t)"
    using assms by (simp_all add: in_sync_def Let_def map_synced_load)
  show ?thesis
    by (simp add: loadFromLocalStorage_def mount_def Let_def log_def s p initial_theme_def)
qed

lemma mount_in_sync: "in_sync (mount Map.empty)"
  by (simp add: in_sync_def mount_def initial_theme_def scalar_synced_def map_synced_def
        is_status_object_defaults)


text \<open>
  C2, as the code has it. Start where the cache mirrors the state, as at mount over an
  empty cache, and make any sequence of setter calls in which the header, avatar, main
  and button colours given are not empty. A fresh \<open>loadFromLocalStorage\<close> over the
  resulting cache returns, and reproduces \<open>headerColor\<close>, \<open>avatarColor\<close>, \<open>mainColor\<close>,
  \<open>buttonColor\<close>, the three status maps and \<open>currentStatusView\<close>. Nothing is said of
  \<open>textColor\<close>.
\<close>

theorem cache_round_trip:
  "in_sync (mount Map.empty)
   \<and> (in_sync w0 \<and> (\<forall>(be, c) \<in> set calls. nonempty_colour c) \<longrightarrow>
       (let w = run calls w0;
            r = loadFromLocalStorage (mount (localStorage w));
            t = theme (world_of r)
        in \<not> threw r
           \<and> headerColor t = headerColor (theme w)
           \<and> avatarColor t = avatarColor (theme w)
           \<and> mainColor t = mainColor (theme w)
           \<and> buttonColor t = buttonColor (theme w)
           \<and> caseStatusColors t = caseStatusColors (theme w)
           \<and> taskStatusColors t = taskStatusColors (theme w)
           \<and> caseStatusTextColors t = caseStatusTextColors (theme w)
           \<and> currentStatusView t = currentStatusView (theme w)))"
proof -
  have "in_sync (run calls w0)"
    if "in_sync w0" "\<forall>(be, c) \<in> set calls. nonempty_colour c"
    using that by (rule run_in_sync)
  then show ?thesis
    using mount_in_sync by (auto simp: Let_def load_in_sync)
qed


text \<open>
  C2, an instance: a header colour, a status colour and a view, set at mount, come back
  from the cache.
\<close>

theorem cache_round_trip_witness:
  "(let w = run [(signed_out, SetHeaderColor ''#000000''),
                 (signed_out, SetCaseStatusColor delayed ''#ff0000''),
                 (signed_out, SetCurrentStatusView Tasks)] (mount Map.empty);
        r = loadFromLocalStorage (mount (localStorage w));
        t = theme (world_of r)
    in in_sync (mount Map.empty) \<and> \<not> threw r
       \<and> headerColor t = ''#000000''
       \<and> caseStatusColors t = status_object ''#F2FCE2'' ''#D3E4FD'' ''#ff0000'' ''#FEF7CD''
       \<and> currentStatusView t = ''tasks'')"
proof -
  let ?calls = "[(signed_out, SetHeaderColor ''#000000''),
                 (signed_out, SetCaseStatusColor delayed ''#ff0000''),
                 (signed_out, SetCurrentStatusView Tasks)]"
  have n: "\<forall>(be, c) \<in> set ?calls. nonempty_colour c" by simp
  have v: "headerColor (theme (run ?calls (mount Map.empty))) = ''#000000''"
    "caseStatusColors (theme (run ?calls (mount Map.empty)))
       = status_object ''#F2FCE2'' ''#D3E4FD'' ''#ff0000'' ''#FEF7CD''"
    "currentStatusView (theme (run ?calls (mount Map.empty))) = ''tasks''"
    by code_simp+
  show ?thesis
    using cache_round_trip [where ?w0.0 = "mount Map.empty" and calls = ?calls] n v
    by (simp add: Let_def)
qed

text \<open>
  C2 as stated fails for \<open>textColor\<close> and for an empty colour. A text colour set with
  \<open>setTextColor\<close> is written under \<^verbatim>\<open>praxis-text-color\<close>, a key the load never reads:
  the load derives the text colour from the header colour. An avatar colour set to the
  empty string is cached as such and read back as the default.
\<close>

theorem cache_round_trip_counterexample:
  "textColor (theme (run [(signed_out, SetTextColor ''text-black'')] (mount Map.empty)))
     = ''text-black''
   \<and> localStorage (run [(signed_out, SetTextColor ''text-black'')] (mount Map.empty))
         ''praxis-text-color'' = Some ''text-black''
   \<and> textColor (theme (world_of (loadFromLocalStorage (mount (localStorage
         (run [(signed_out, SetTextColor ''text-black'')] (mount Map.empty)))))))
       = ''text-gray-800''
   \<and> avatarColor (theme (run [(signed_out, SetAvatarColor [])] (mount Map.empty))) = []
   \<and> avatarColor (theme (world_of (loadFromLocalStorage (mount (localStorage
         (run [(signed_out, SetAvatarColor [])] (mount Map.empty)))))))
       = ''#F5A65B''"
  by code_simp


section \<open>The status view\<close>

lemma load_view:
  assumes "cache_parses (localStorage w)"
  shows "\<not> threw (loadFromLocalStorage w)"
    and "currentStatusView (theme (world_of (loadFromLocalStorage w)))
         = str_or (localStorage w ''praxis-status-view'') ''cases''"
  using assms
  by (auto simp: cache_parses_def loadFromLocalStorage_def Let_def log_def)

lemma perform_maps_in_sync: "maps_in_sync w \<Longrightarrow> maps_in_sync (perform be c w)"
proof (cases c)
  case (SetCaseStatusColor k x)
  assume a: "maps_in_sync w"
  then have "is_status_object (caseStatusColors (theme w))"
    by (simp add: maps_in_sync_def map_synced_def)
  then show ?thesis using a SetCaseStatusColor
    by (simp add: maps_in_sync_def setCaseStatusColor_def Let_def map_synced_put)
next
  case (SetTaskStatusColor k x)
  assume a: "maps_in_sync w"
  then have "is_status_object (taskStatusColors (theme w))"
    by (simp add: maps_in_sync_def map_synced_def)
  then show ?thesis using a SetTaskStatusColor
    by (simp add: maps_in_sync_def setTaskStatusColor_def Let_def map_synced_put)
next
  case (SetCaseStatusTextColor k x)
  assume a: "maps_in_sync w"
  then have "is_status_object (caseStatusTextColors (theme w))"
    by (simp add: maps_in_sync_def map_synced_def)
  then show ?thesis using a SetCaseStatusTextColor
    by (simp add: maps_in_sync_def setCaseStatusTextColor_def Let_def map_synced_put)
qed (simp_all add: maps_in_sync_def setter_defs Let_def)

lemma run_maps_in_sync: "maps_in_sync w \<Longrightarrow> maps_in_sync (run calls w)"
  by (induction calls arbitrary: w) (auto simp: perform_maps_in_sync)

lemma mount_maps_in_sync: "maps_in_sync (mount Map.empty)"
  by (simp add: maps_in_sync_def mount_def initial_theme_def map_synced_def
        is_status_object_defaults)

lemma maps_in_sync_parses: "maps_in_sync w \<Longrightarrow> cache_parses (localStorage w)"
  by (auto simp: maps_in_sync_def cache_parses_def dest: map_synced_load)

lemma run_cache_parses: "cache_parses (localStorage (run calls (mount Map.empty)))"
  by (intro maps_in_sync_parses run_maps_in_sync mount_maps_in_sync)


text \<open>
  C8. The claim: \<open>setCurrentStatusView v\<close> updates memory and the local cache, a fresh
  local-cache load restores its value, and it never writes to the remote store. The code,
  called with \<^verbatim>\<open>tasks\<close> on a provider whose cache holds the text \<^verbatim>\<open>{\<close> under the
  case-status key: the field and the cache entry are set, but a fresh load over that
  cache throws at \<open>JSON.parse\<close> of the case-status entry, before it reaches the
  statement that reads the view; the view of the reloaded provider is \<^verbatim>\<open>cases\<close>, after
  \<open>loadFromLocalStorage\<close> and after the whole of \<open>loadThemeSettings\<close>, whose \<open>catch\<close>
  runs the same load again. It is the defect of C1.
\<close>

theorem setCurrentStatusView_not_restored:
  "currentStatusView (theme
       (setCurrentStatusView Tasks (mount [''praxis-case-status-colors'' \<mapsto> ''{''])))
     = ''tasks''
   \<and> localStorage
         (setCurrentStatusView Tasks (mount [''praxis-case-status-colors'' \<mapsto> ''{'']))
         ''praxis-status-view'' = Some ''tasks''
   \<and> threw (loadFromLocalStorage (mount (localStorage
         (setCurrentStatusView Tasks (mount [''praxis-case-status-colors'' \<mapsto> ''{''])))))
   \<and> currentStatusView (theme (world_of (loadFromLocalStorage (mount (localStorage
         (setCurrentStatusView Tasks (mount [''praxis-case-status-colors'' \<mapsto> ''{''])))))))
       = ''cases''
   \<and> threw (loadThemeSettings signed_out (mount (localStorage
         (setCurrentStatusView Tasks (mount [''praxis-case-status-colors'' \<mapsto> ''{''])))))
   \<and> currentStatusView (theme (world_of (loadThemeSettings signed_out (mount (localStorage
         (setCurrentStatusView Tasks (mount [''praxis-case-status-colors'' \<mapsto> ''{''])))))))
       = ''cases''"
  by code_simp

text \<open>
  Short of that, the code does what the claim says. \<open>setCurrentStatusView v\<close> sets the
  field and writes the cache, and leaves the trace as it was whatever \<open>initialized\<close> is:
  it never calls \<open>saveThemeToDatabase\<close>. A fresh \<open>loadFromLocalStorage\<close> over the
  resulting cache returns with the view restored whenever the three cached status maps
  parse, which the load needs to get as far as the view; every cache that setter calls
  have written, starting from an empty one, is such a cache. No remote payload holds the
  view: what any setter sends is the same whatever \<open>currentStatusView\<close> is.
\<close>

lemma setCurrentStatusView_local_only:
  "currentStatusView (theme (setCurrentStatusView v w)) = view_name v
   \<and> localStorage (setCurrentStatusView v w) ''praxis-status-view'' = Some (view_name v)
   \<and> trace (setCurrentStatusView v w) = trace w
   \<and> (cache_parses (localStorage w) \<longrightarrow>
        \<not> threw (loadFromLocalStorage (mount (localStorage (setCurrentStatusView v w))))
        \<and> currentStatusView (theme (world_of
              (loadFromLocalStorage (mount (localStorage (setCurrentStatusView v w))))))
            = view_name v)
   \<and> cache_parses (localStorage (run calls (mount Map.empty)))
   \<and> trace (perform be c (w\<lparr>theme := (theme w)\<lparr>currentStatusView := x\<rparr>\<rparr>))
       = trace (perform be c w)"
proof -
  let ?w' = "setCurrentStatusView v w"
  have a: "currentStatusView (theme ?w') = view_name v"
    "localStorage ?w' ''praxis-status-view'' = Some (view_name v)"
    "trace ?w' = trace w"
    by (simp_all add: setCurrentStatusView_def)
  have b: "\<not> threw (loadFromLocalStorage (mount (localStorage ?w')))
           \<and> currentStatusView (theme (world_of (loadFromLocalStorage (mount (localStorage ?w')))))
             = view_name v" if "cache_parses (localStorage w)"
  proof -
    have cp: "cache_parses (localStorage (mount (localStorage ?w')))"
      using that by (simp add: cache_parses_def mount_def setCurrentStatusView_def)
    have "str_or (localStorage (mount (localStorage ?w')) ''praxis-status-view'') ''cases''
          = view_name v"
      by (simp add: mount_def a(2) str_or_def view_name_nonempty)
    then show ?thesis using load_view [OF cp] by simp
  qed
  show ?thesis using a b run_cache_parses perform_view_indep by blast
qed

end
